theory Spec2Isabelle
  imports Complex_Main
begin

section \<open>Strings\<close>

text \<open>
  JavaScript strings are modelled as \<^typ>\<open>string\<close>, one \<^typ>\<open>char\<close> per code unit:
  the strings whose code units are below 256. \<^verbatim>\<open>toLowerCase\<close> maps such a code unit
  to one of them: the letters \<^verbatim>\<open>A\<close> to \<^verbatim>\<open>Z\<close> and U+00C0 to U+00DE, without the
  sign U+00D7, move up by 32.
\<close>

definition toLowerChar :: "char \<Rightarrow> char" where
  "toLowerChar c =
     (let n = (of_char c :: nat) in
      if (65 \<le> n \<and> n \<le> 90) \<or> (192 \<le> n \<and> n \<le> 222 \<and> n \<noteq> 215) then char_of (n + 32) else c)"

definition toLowerCase :: "string \<Rightarrow> string" where
  "toLowerCase s = map toLowerChar s"

text \<open>
  \<^verbatim>\<open>toUpperCase\<close> leaves the strings of \<^typ>\<open>string\<close>: the upper case of U+00B5 is
  U+039C, that of U+00FF is U+0178, and that of U+00DF is \<^verbatim>\<open>SS\<close>. Its result, and
  every text that contains one, is a list of code units as numbers; \<open>units\<close> gives the
  code units of a \<^typ>\<open>string\<close>.
\<close>

type_synonym code_units = "nat list"

definition units :: "string \<Rightarrow> code_units" where
  "units s = map of_char s"

definition toUpperChar :: "char \<Rightarrow> code_units" where
  "toUpperChar c =
     (let n = (of_char c :: nat) in
      if (97 \<le> n \<and> n \<le> 122) \<or> (224 \<le> n \<and> n \<le> 254 \<and> n \<noteq> 247) then [n - 32]
      else if n = 181 then [924]
      else if n = 223 then [83, 83]
      else if n = 255 then [376]
      else [n])"

text \<open>Line terminators (not matched by \<^verbatim>\<open>.\<close>) and white space (\<^verbatim>\<open>\s\<close>, \<^verbatim>\<open>trim\<close>).\<close>

definition isLineTerminator :: "char \<Rightarrow> bool" where
  "isLineTerminator c = (c \<in> set [CHR 0x0A, CHR 0x0D])"

definition isSpace :: "char \<Rightarrow> bool" where
  "isSpace c = (c \<in> set [CHR '' '', CHR 0x09, CHR 0x0A, CHR 0x0B, CHR 0x0C, CHR 0x0D, CHR 0xA0])"

definition isWordChar :: "char \<Rightarrow> bool" where
  "isWordChar c =
     (c \<in> set ''abcdefghijklmnopqrstuvwxyzABCDEFGHIJKLMNOPQRSTUVWXYZ0123456789_'')"

definition trim :: "string \<Rightarrow> string" where
  "trim s = rev (dropWhile isSpace (rev (dropWhile isSpace s)))"

text \<open>\<^verbatim>\<open>xs.join(sep)\<close> on an array of strings.\<close>

fun join :: "'a list \<Rightarrow> 'a list list \<Rightarrow> 'a list" where
  "join sep [] = []"
| "join sep [x] = x"
| "join sep (x # y # ys) = x @ sep @ join sep (y # ys)"

text \<open>\<^verbatim>\<open>s.split('|')\<close>: the pieces between the separators, at least one piece.\<close>

fun split_bar :: "string \<Rightarrow> string list" where
  "split_bar [] = [[]]"
| "split_bar (c # cs) =
     (if c = CHR ''|'' then [] # split_bar cs
      else (case split_bar cs of [] \<Rightarrow> [[c]] | p # ps \<Rightarrow> (c # p) # ps))"

section \<open>Regular expressions\<close>

text \<open>
  The regular expressions of the source are embedded as syntax trees and run by a
  backtracking matcher with the priorities of the JavaScript matcher: alternatives left
  to right, quantifiers greedy, an iteration of a quantifier that consumes nothing
  is refused. A match state is the character before the current position (none at the
  start of the input), the rest of the input, and the text of capture group 1.
\<close>

datatype regex =
    Chr char            \<comment> \<open>a literal character\<close>
  | AnyChar             \<comment> \<open>\<^verbatim>\<open>.\<close>\<close>
  | OneOf "char list"   \<comment> \<open>a class \<^verbatim>\<open>[...]\<close> of literal characters\<close>
  | Space               \<comment> \<open>\<^verbatim>\<open>\s\<close>\<close>
  | WordB               \<comment> \<open>\<^verbatim>\<open>\b\<close>\<close>
  | Bol                 \<comment> \<open>\<^verbatim>\<open>^\<close> (no multiline flag)\<close>
  | Eps                 \<comment> \<open>the empty pattern\<close>
  | Seq regex regex
  | Alt regex regex
  | Star regex          \<comment> \<open>\<^verbatim>\<open>r*\<close>\<close>
  | Upto nat regex      \<comment> \<open>\<^verbatim>\<open>r{0,n}\<close>\<close>
  | Group regex         \<comment> \<open>capture group 1\<close>

type_synonym mstate = "char option \<times> string \<times> string option"

text \<open>
  Under the flag \<^verbatim>\<open>i\<close> two characters are equal when their canonical forms are: the
  upper case of the character when that is one code unit, except that a character from
  128 on is never taken to one below 128.
\<close>

definition canonicalize :: "char \<Rightarrow> nat" where
  "canonicalize c =
     (case toUpperChar c of
        [u] \<Rightarrow> if 128 \<le> (of_char c :: nat) \<and> u < 128 then of_char c else u
      | _ \<Rightarrow> of_char c)"

definition chr_eq :: "bool \<Rightarrow> char \<Rightarrow> char \<Rightarrow> bool" where
  "chr_eq icase c d = (if icase then canonicalize c = canonicalize d else c = d)"

definition isWordOpt :: "char option \<Rightarrow> bool" where
  "isWordOpt p = (case p of None \<Rightarrow> False | Some c \<Rightarrow> isWordChar c)"

definition progress :: "mstate \<Rightarrow> mstate \<Rightarrow> bool" where
  "progress st st' = (length (fst (snd st')) < length (fst (snd st)))"

text \<open>At most \<open>n\<close> greedy iterations of the matcher \<open>f\<close>, each consuming input.\<close>

fun iterate_greedy :: "(mstate \<Rightarrow> mstate list) \<Rightarrow> nat \<Rightarrow> mstate \<Rightarrow> mstate list" where
  "iterate_greedy f 0 st = [st]"
| "iterate_greedy f (Suc n) st =
     concat (map (iterate_greedy f n) (filter (progress st) (f st))) @ [st]"

fun rx_match :: "bool \<Rightarrow> regex \<Rightarrow> mstate \<Rightarrow> mstate list" where
  "rx_match icase (Chr c) (p, s, g) =
     (case s of [] \<Rightarrow> [] | d # s' \<Rightarrow> if chr_eq icase c d then [(Some d, s', g)] else [])"
| "rx_match icase AnyChar (p, s, g) =
     (case s of [] \<Rightarrow> [] | d # s' \<Rightarrow> if isLineTerminator d then [] else [(Some d, s', g)])"
| "rx_match icase (OneOf cs) (p, s, g) =
     (case s of [] \<Rightarrow> []
      | d # s' \<Rightarrow> if list_ex (\<lambda>c. chr_eq icase c d) cs then [(Some d, s', g)] else [])"
| "rx_match icase Space (p, s, g) =
     (case s of [] \<Rightarrow> [] | d # s' \<Rightarrow> if isSpace d then [(Some d, s', g)] else [])"
| "rx_match icase WordB (p, s, g) =
     (if isWordOpt p \<noteq> isWordOpt (case s of [] \<Rightarrow> None | d # _ \<Rightarrow> Some d)
      then [(p, s, g)] else [])"
| "rx_match icase Bol (p, s, g) = (if p = None then [(p, s, g)] else [])"
| "rx_match icase Eps st = [st]"
| "rx_match icase (Seq a b) st = concat (map (\<lambda>st'. rx_match icase b st') (rx_match icase a st))"
| "rx_match icase (Alt a b) st = rx_match icase a st @ rx_match icase b st"
| "rx_match icase (Star a) st =
     iterate_greedy (\<lambda>st'. rx_match icase a st') (length (fst (snd st))) st"
| "rx_match icase (Upto n a) st = iterate_greedy (\<lambda>st'. rx_match icase a st') n st"
| "rx_match icase (Group a) (p, s, g) =
     map (\<lambda>(p', s', g'). (p', s', Some (take (length s - length s') s)))
         (rx_match icase a (p, s, g))"

text \<open>\<^verbatim>\<open>r+\<close> is one \<open>r\<close> and then \<^verbatim>\<open>r*\<close>.\<close>

definition OneOrMore :: "regex \<Rightarrow> regex" where
  "OneOrMore r = Seq r (Star r)"

text \<open>A literal word, and an alternation of literal words.\<close>

definition lit :: "string \<Rightarrow> regex" where
  "lit s = foldr (\<lambda>c r. Seq (Chr c) r) s Eps"

fun alts :: "regex list \<Rightarrow> regex" where
  "alts [] = Eps"
| "alts [r] = r"
| "alts (r # rs) = Alt r (alts rs)"

text \<open>
  \<^verbatim>\<open>regex.exec(s)\<close> without the global flag: the first start position, from the left,
  at which the pattern matches, and the highest-priority match there.
\<close>

fun rx_scan :: "bool \<Rightarrow> regex \<Rightarrow> char option \<Rightarrow> string \<Rightarrow> mstate option" where
  "rx_scan icase r p [] = (case rx_match icase r (p, [], None) of [] \<Rightarrow> None | st # _ \<Rightarrow> Some st)"
| "rx_scan icase r p (c # cs) =
     (case rx_match icase r (p, c # cs, None) of
        [] \<Rightarrow> rx_scan icase r (Some c) cs
      | st # _ \<Rightarrow> Some st)"

definition rx_test :: "bool \<Rightarrow> regex \<Rightarrow> string \<Rightarrow> bool" where
  "rx_test icase r s = (rx_scan icase r None s \<noteq> None)"

section \<open>Values and objects\<close>

text \<open>
  The values a slot can hold: what \<^verbatim>\<open>JSON.parse\<close> gives for the answer of the model
  or for the body of a request (null, a boolean, a number, a string, an array, an
  object), \<^verbatim>\<open>undefined\<close>, and \<open>Inherited n\<close>, the member \<open>n\<close> of
  \<^verbatim>\<open>Object.prototype\<close> that a property read finds on a plain object with no own
  property \<open>n\<close>. A number is given by the text that \<^verbatim>\<open>String\<close> prints for it; the
  program only prints a number value, tests it for truth and compares it with another
  parsed value. \<open>Obj\<close> is a parsed object that has no own property \<^verbatim>\<open>toString\<close> or
  \<^verbatim>\<open>valueOf\<close>; the program only prints an object value and compares it by identity,
  so its properties are left out.
\<close>

datatype jsval =
    Undefined | Null | JBool bool | Num string | Str string | Arr "jsval list" | Obj
  | Inherited string

definition Object_prototype_names :: "string list" where
  "Object_prototype_names =
     [''constructor'', ''__defineGetter__'', ''__defineSetter__'', ''hasOwnProperty'',
      ''__lookupGetter__'', ''__lookupSetter__'', ''isPrototypeOf'', ''propertyIsEnumerable'',
      ''toString'', ''valueOf'', ''__proto__'', ''toLocaleString'']"

text \<open>
  A plain object is the list of its own properties in creation order (what
  \<^verbatim>\<open>Object.keys\<close> and \<^verbatim>\<open>Object.entries\<close> enumerate, for keys that are not
  array indices); its prototype is \<^verbatim>\<open>Object.prototype\<close>.
\<close>

type_synonym jsobject = "(string \<times> jsval) list"

definition obj_get :: "jsobject \<Rightarrow> string \<Rightarrow> jsval" where
  "obj_get obj k =
     (case map_of obj k of
        Some v \<Rightarrow> v
      | None \<Rightarrow> if k \<in> set Object_prototype_names then Inherited k else Undefined)"

fun obj_put :: "string \<Rightarrow> jsval \<Rightarrow> jsobject \<Rightarrow> jsobject" where
  "obj_put k v [] = [(k, v)]"
| "obj_put k v ((k', v') # ps) = (if k' = k then (k, v) # ps else (k', v') # obj_put k v ps)"

text \<open>
  \<^verbatim>\<open>obj[k] = v\<close>, as far as the own properties of \<open>obj\<close> go. With no own property of
  that name, \<^verbatim>\<open>__proto__\<close> is the accessor of \<^verbatim>\<open>Object.prototype\<close>: the assignment
  creates no own property. Given an array, an object or null, the accessor makes it
  the prototype of \<open>obj\<close>; a list of own properties has no place for that, so after
  such an assignment \<open>obj_get\<close> is the read of the code for own properties only. Every
  statement below about reads after an assignment excludes the name \<^verbatim>\<open>__proto__\<close>
  or is about own properties.
\<close>

definition obj_set :: "jsobject \<Rightarrow> string \<Rightarrow> jsval \<Rightarrow> jsobject" where
  "obj_set obj k v =
     (if k = ''__proto__'' \<and> map_of obj k = None then obj else obj_put k v obj)"

text \<open>
  \<^verbatim>\<open>String(v)\<close>. An array prints its elements with commas between them, null and
  undefined elements as the empty string; a native function prints as V8 prints it.
\<close>

fun String_js :: "jsval \<Rightarrow> string" where
  "String_js Undefined = ''undefined''"
| "String_js Null = ''null''"
| "String_js (JBool b) = (if b then ''true'' else ''false'')"
| "String_js (Num t) = t"
| "String_js (Str s) = s"
| "String_js (Arr vs) =
     join '','' (map (\<lambda>v. if v = Undefined \<or> v = Null then [] else String_js v) vs)"
| "String_js Obj = ''[object Object]''"
| "String_js (Inherited n) =
     (if n = ''__proto__'' then ''[object Object]''
      else ''function '' @ (if n = ''constructor'' then ''Object'' else n)
           @ ''() { [native code] }'')"

text \<open>The text of an array element in \<^verbatim>\<open>xs.join(sep)\<close>.\<close>

definition element_text :: "jsval \<Rightarrow> string" where
  "element_text v = (if v = Undefined \<or> v = Null then [] else String_js v)"

text \<open>
  \<^verbatim>\<open>a !== b\<close> where \<open>b\<close> is a freshly parsed value: an array or an object is only
  equal to itself, and \<^verbatim>\<open>NaN\<close> to nothing.
\<close>

definition strict_neq :: "jsval \<Rightarrow> jsval \<Rightarrow> bool" where
  "strict_neq a b =
     (case b of
        Arr _ \<Rightarrow> True
      | Obj \<Rightarrow> True
      | Inherited _ \<Rightarrow> True
      | Num t \<Rightarrow> t = ''NaN'' \<or> a \<noteq> b
      | _ \<Rightarrow> a \<noteq> b)"

datatype js_error = TypeError

section \<open>The slot schema\<close>

text \<open>
  A branch is a key of \<^verbatim>\<open>branches\<close> with its target. \<open>compiled\<close> is the syntax tree
  that \<^verbatim>\<open>new RegExp(pattern, 'i')\<close> builds from the key, \<open>None\<close> when it throws.
\<close>

record branch =
  pattern :: string
  compiled :: "regex option"
  target :: "string option"

record slot_config =
  slot_id :: string
  question :: string
  slot :: string
  required :: bool
  branches :: "branch list"
  next_default :: "string option"

type_synonym slot_schema = "(string \<times> slot_config) list"

text \<open>\<^verbatim>\<open>.*w.*\<close> for a literal word \<open>w\<close>, the shape of every branch key of the schema.\<close>

definition contains :: "string \<Rightarrow> regex" where
  "contains w = Seq (Star AnyChar) (Seq (lit w) (Star AnyChar))"

definition chief_complaint_config :: slot_config where
  "chief_complaint_config =
     \<lparr>slot_id = ''chief_complaint'', question = ''What brings you in today?'',
      slot = ''chief_complaint_text'', required = True,
      branches =
        [\<lparr>pattern = ''.*fertility.*'', compiled = Some (contains ''fertility''),
          target = Some ''months_ttc''\<rparr>,
         \<lparr>pattern = ''.*pregnant.*'', compiled = Some (contains ''pregnant''),
          target = Some ''months_ttc''\<rparr>,
         \<lparr>pattern = ''.*trying.*'', compiled = Some (contains ''trying''),
          target = Some ''months_ttc''\<rparr>],
      next_default = None\<rparr>"

definition SLOT_SCHEMA :: slot_schema where
  "SLOT_SCHEMA =
    [(''full_name'',
        \<lparr>slot_id = ''full_name'', question = ''What is your full name?'',
         slot = ''full_name'', required = True, branches = [],
         next_default = Some ''dob''\<rparr>),
     (''dob'',
        \<lparr>slot_id = ''dob'', question = ''What is your date of birth?'',
         slot = ''dob'', required = True, branches = [],
         next_default = Some ''has_partner''\<rparr>),
     (''has_partner'',
        \<lparr>slot_id = ''has_partner'',
         question = ''Do you have a partner who will be part of treatment? (yes/no)'',
         slot = ''has_partner'', required = True, branches = [],
         next_default = Some ''chief_complaint''\<rparr>),
     (''chief_complaint'', chief_complaint_config),
     (''months_ttc'',
        \<lparr>slot_id = ''months_ttc'',
         question = ''How many months have you been trying to get pregnant?'',
         slot = ''months_ttc'', required = False, branches = [],
         next_default = None\<rparr>)]"

text \<open>
  \<^verbatim>\<open>slots[name]\<close>: a slot definition, a member of \<^verbatim>\<open>Object.prototype\<close> (truthy,
  with none of the fields of a definition), or \<^verbatim>\<open>undefined\<close>.
\<close>

datatype slot_ref = Cfg slot_config | ProtoMember | NoSlot

definition slots_get :: "slot_schema \<Rightarrow> string \<Rightarrow> slot_ref" where
  "slots_get slots k =
     (case map_of slots k of
        Some c \<Rightarrow> Cfg c
      | None \<Rightarrow> if k \<in> set Object_prototype_names then ProtoMember else NoSlot)"

section \<open>Slot graph traversal\<close>

text \<open>
  One test of the loop over \<^verbatim>\<open>Object.entries(cfg.branches)\<close>: the compiled key is
  tested against the value; a key that does not compile is split at \<^verbatim>\<open>|\<close> and the
  value is looked up among the trimmed, lower-cased pieces.
\<close>

definition branch_matches :: "string \<Rightarrow> branch \<Rightarrow> bool" where
  "branch_matches v b =
     (case compiled b of
        Some r \<Rightarrow> rx_test True r v
      | None \<Rightarrow> v \<in> set (map (\<lambda>p. toLowerCase (trim p)) (split_bar (pattern b))))"

text \<open>\<^verbatim>\<open>x || null\<close> on a slot id: the empty string is falsy.\<close>

definition or_null :: "string option \<Rightarrow> string option" where
  "or_null x = (case x of None \<Rightarrow> None | Some s \<Rightarrow> if s = [] then None else Some s)"

definition next_slot :: "slot_config \<Rightarrow> string \<Rightarrow> string option" where
  "next_slot cfg v =
     (if v \<noteq> [] then
        (case find (branch_matches v) (branches cfg) of
           Some b \<Rightarrow> target b
         | None \<Rightarrow> or_null (next_default cfg))
      else or_null (next_default cfg))"

text \<open>\<^verbatim>\<open>String(filledSlots[current] ?? '').toLowerCase()\<close>\<close>

definition branch_value :: "jsval \<Rightarrow> string" where
  "branch_value v = toLowerCase (case v of Undefined \<Rightarrow> [] | Null \<Rightarrow> [] | _ \<Rightarrow> String_js v)"

definition loop_message :: "string \<Rightarrow> string" where
  "loop_message c = ''Branch traversal loop detected at slot: '' @ c"

text \<open>
  The \<^verbatim>\<open>while (current)\<close> loop. The result is the returned slot id (\<open>None\<close> for
  \<^verbatim>\<open>null\<close>) with the lines written to \<^verbatim>\<open>console.error\<close>, or the TypeError of
  reading \<^verbatim>\<open>cfg.next_default\<close> when \<^verbatim>\<open>slots[current]\<close> is undefined. A member of
  \<^verbatim>\<open>Object.prototype\<close> as \<open>cfg\<close> has neither \<^verbatim>\<open>next_default\<close> nor
  \<^verbatim>\<open>branches\<close>, so \<open>next\<close> is null and the loop ends.
\<close>

function walk ::
  "slot_schema \<Rightarrow> jsobject \<Rightarrow> string list \<Rightarrow> string option \<Rightarrow> js_error + (string option \<times> string list)"
where
  "walk slots filledSlots visited current =
     (case current of
        None \<Rightarrow> Inr (None, [])
      | Some c \<Rightarrow>
          if c = [] then Inr (None, [])
          else if c \<in> set visited then Inr (None, [loop_message c])
          else if obj_get filledSlots c = Undefined then Inr (Some c, [])
          else (case slots_get slots c of
                  NoSlot \<Rightarrow> Inl TypeError
                | ProtoMember \<Rightarrow> Inr (None, [])
                | Cfg cfg \<Rightarrow>
                    walk slots filledSlots (c # visited)
                      (next_slot cfg (branch_value (obj_get filledSlots c)))))"
  by pat_completeness auto
termination
proof (relation "measure (\<lambda>(slots, filledSlots, visited, current). card (fst ` set slots - set visited))")
  show "wf (measure (\<lambda>(slots, filledSlots, visited, current). card (fst ` set slots - set visited)))"
    by simp
next
  fix slots :: slot_schema and filledSlots :: jsobject and visited :: "string list"
    and current :: "string option" and c :: string and cfg :: slot_config
  assume "c \<notin> set visited" and "slots_get slots c = Cfg cfg"
  then have mem: "c \<in> fst ` set slots - set visited"
    by (auto simp: slots_get_def split: option.splits if_splits dest: map_of_SomeD
             intro: rev_image_eqI)
  have fin: "finite (fst ` set slots - set visited)"
    by simp
  have "card ((fst ` set slots - set visited) - {c}) < card (fst ` set slots - set visited)"
    using fin mem by (rule card_Diff1_less)
  moreover have "fst ` set slots - set (c # visited) = (fst ` set slots - set visited) - {c}"
    by auto
  ultimately have "card (fst ` set slots - set (c # visited)) < card (fst ` set slots - set visited)"
    by simp
  then show "((slots, filledSlots, c # visited,
               next_slot cfg (branch_value (obj_get filledSlots c))),
              (slots, filledSlots, visited, current))
             \<in> measure (\<lambda>(slots, filledSlots, visited, current). card (fst ` set slots - set visited))"
    by simp
qed


definition root_slot :: "slot_schema \<Rightarrow> string option" where
  "root_slot slots = (case slots of [] \<Rightarrow> None | (k, _) # _ \<Rightarrow> Some k)"

definition getNextUnfilledSlot ::
  "slot_schema \<Rightarrow> jsobject \<Rightarrow> js_error + (string option \<times> string list)" where
  "getNextUnfilledSlot slots filledSlots = walk slots filledSlots [] (root_slot slots)"

section \<open>Slot validation\<close>

record validation =
  isValid :: bool
  error :: "string option"

definition validateSlotValue :: "slot_schema \<Rightarrow> string \<Rightarrow> jsval \<Rightarrow> validation" where
  "validateSlotValue slots slotName v =
     (case slots_get slots slotName of
        NoSlot \<Rightarrow> \<lparr>isValid = False, error = Some ''Invalid slot name''\<rparr>
      | _ \<Rightarrow>
          if v = Null \<or> v = Undefined then \<lparr>isValid = False, error = Some ''No value provided''\<rparr>
          else (case v of
                  JBool b \<Rightarrow> \<lparr>isValid = True, error = None\<rparr>
                | Str s \<Rightarrow>
                    if trim s = [] then \<lparr>isValid = False, error = Some ''Empty value provided''\<rparr>
                    else \<lparr>isValid = True, error = None\<rparr>
                | _ \<Rightarrow> \<lparr>isValid = True, error = None\<rparr>))"

section \<open>Interview memory\<close>

text \<open>
  The message log of \<^verbatim>\<open>InterviewMemoryManager\<close>, without the time stamps. The
  question of an interviewer message is \<open>None\<close> when the caller passed
  \<^verbatim>\<open>undefined\<close>; an undefined extracted value takes the default of the
  parameter, null.
\<close>

datatype message =
    Ai "string option"
  | Human string jsval string

record memory =
  messages :: "message list"
  interactionCount :: nat

definition saveInteraction ::
  "memory \<Rightarrow> string option \<Rightarrow> string \<Rightarrow> jsval \<Rightarrow> string \<Rightarrow> memory" where
  "saveInteraction m q userResponse extractedValue slotName =
     \<lparr>messages = messages m
        @ [Ai q,
           Human userResponse (if extractedValue = Undefined then Null else extractedValue)
             slotName],
      interactionCount = interactionCount m + 1\<rparr>"

text \<open>\<^verbatim>\<open>slotConfig.question\<close> where \<open>slotConfig\<close> is not undefined.\<close>

definition slot_question :: "slot_ref \<Rightarrow> string option" where
  "slot_question r = (case r of Cfg cfg \<Rightarrow> Some (question cfg) | _ \<Rightarrow> None)"

section \<open>Extraction merge\<close>

text \<open>
  A candidate extraction; \<open>val\<close> is its property \<^verbatim>\<open>value\<close>. The confidence is a
  number between 0 and 1; the comparison with the threshold 0.7 is modelled on the
  rationals. A rejected extraction has the same properties and \<^verbatim>\<open>error\<close>, here
  \<open>rejection\<close>: the error of the validation, null when the value was valid and the
  confidence too low.
\<close>

record extraction =
  slotName :: string
  val :: jsval
  confidence :: rat

record failed_extraction = extraction +
  rejection :: "string option"

record merge_result =
  updatedSlots :: jsobject
  successfulExtractions :: "extraction list"
  failedExtractions :: "failed_extraction list"

definition reject :: "extraction \<Rightarrow> string option \<Rightarrow> failed_extraction" where
  "reject e r = \<lparr>slotName = slotName e, val = val e, confidence = confidence e, rejection = r\<rparr>"

definition accept :: "extraction \<Rightarrow> extraction" where
  "accept e = \<lparr>slotName = slotName e, val = val e, confidence = confidence e\<rparr>"

text \<open>The body of \<^verbatim>\<open>for (const extraction of extractions)\<close>, then the loop.\<close>

definition merge_step ::
  "slot_schema \<Rightarrow> extraction \<Rightarrow> merge_result \<times> memory \<Rightarrow> merge_result \<times> memory" where
  "merge_step slots e st =
     (let (r, m) = st; validation = validateSlotValue slots (slotName e) (val e) in
      if isValid validation \<and> confidence e \<ge> 7 / 10 then
        (r\<lparr>updatedSlots := obj_set (updatedSlots r) (slotName e) (val e),
           successfulExtractions := successfulExtractions r @ [accept e]\<rparr>,
         saveInteraction m (slot_question (slots_get slots (slotName e)))
           (''[Multi-extraction] '' @ String_js (val e)) (val e) (slotName e))
      else
        (r\<lparr>failedExtractions := failedExtractions r @ [reject e (error validation)]\<rparr>, m))"

fun merge_loop ::
  "slot_schema \<Rightarrow> extraction list \<Rightarrow> merge_result \<times> memory \<Rightarrow> merge_result \<times> memory" where
  "merge_loop slots [] st = st"
| "merge_loop slots (e # es) st = merge_loop slots es (merge_step slots e st)"

definition processMultipleExtractions ::
  "slot_schema \<Rightarrow> extraction list \<Rightarrow> jsobject \<Rightarrow> memory \<Rightarrow> merge_result \<times> memory" where
  "processMultipleExtractions slots extractions filledSlots m =
     merge_loop slots extractions
       (\<lparr>updatedSlots = filledSlots, successfulExtractions = [], failedExtractions = []\<rparr>, m)"

section \<open>Review message\<close>

definition formatValue :: "jsval \<Rightarrow> string" where
  "formatValue v =
     (case v of
        JBool b \<Rightarrow> (if b then ''Yes'' else ''No'')
      | Arr vs \<Rightarrow> join '', '' (map element_text vs)
      | _ \<Rightarrow> String_js v)"

text \<open>
  \<^verbatim>\<open>label.replace(/\(.*?\)/g, '')\<close>: from the left, every \<^verbatim>\<open>(\<close> that has a
  \<^verbatim>\<open>)\<close> after it on the same line is removed with the text up to the first such
  \<^verbatim>\<open>)\<close>. \<open>close_index\<close> is the position of that \<^verbatim>\<open>)\<close>.
\<close>

fun close_index :: "string \<Rightarrow> nat option" where
  "close_index [] = None"
| "close_index (c # cs) =
     (if c = CHR '')'' then Some 0
      else if isLineTerminator c then None
      else map_option Suc (close_index cs))"

fun strip_parens :: "string \<Rightarrow> string" where
  "strip_parens [] = []"
| "strip_parens (c # cs) =
     (if c = CHR ''('' then
        (case close_index cs of
           Some k \<Rightarrow> strip_parens (drop (Suc k) cs)
         | None \<Rightarrow> c # strip_parens cs)
      else c # strip_parens cs)"

definition makeLabel :: "string option \<Rightarrow> string \<Rightarrow> code_units" where
  "makeLabel q name =
     (let label0 = (case q of None \<Rightarrow> name | Some t \<Rightarrow> if t = [] then name else t);
          label1 = trim (strip_parens label0);
          label2 = (if label1 \<noteq> [] \<and> last label1 = CHR ''?'' then butlast label1 else label1)
      in case label2 of [] \<Rightarrow> [] | c # cs \<Rightarrow> toUpperChar c @ units cs)"

text \<open>\<^verbatim>\<open>SLOT_SCHEMA.slots[slotName]?.question\<close>\<close>

definition question_of :: "slot_schema \<Rightarrow> string \<Rightarrow> string option" where
  "question_of slots name = slot_question (slots_get slots name)"

definition review_line :: "slot_schema \<Rightarrow> string \<times> jsval \<Rightarrow> code_units" where
  "review_line slots entry =
     (case entry of (name, v) \<Rightarrow>
        units ''- **'' @ makeLabel (question_of slots name) name @ units '':** ''
        @ units (formatValue v))"

definition review_lines :: "slot_schema \<Rightarrow> jsobject \<Rightarrow> code_units list" where
  "review_lines slots filledSlots = map (review_line slots) filledSlots"

definition review_header :: string where
  "review_header = ''### Please review your information'' @ [CHR 0x0A, CHR 0x0A]"

definition review_footer :: string where
  "review_footer =
     [CHR 0x0A, CHR 0x0A]
     @ ''If anything looks incorrect or needs to be updated, just tell me (for example, ''
     @ [CHR 0x5C, CHR 0x22] @ ''Change my birth year to 1987'' @ [CHR 0x5C, CHR 0x22]
     @ '' or '' @ [CHR 0x5C, CHR 0x22] @ ''I don'' @ [CHR 0x27] @ ''t have a partner''
     @ [CHR 0x5C, CHR 0x22] @ '').'' @ [CHR 0x0A, CHR 0x0A]
     @ ''When everything looks good, type **approved** to finalize.''"

definition generateReviewMessage :: "slot_schema \<Rightarrow> jsobject \<Rightarrow> code_units" where
  "generateReviewMessage slots filledSlots =
     units review_header @ join [10] (review_lines slots filledSlots) @ units review_footer"

section \<open>Next question\<close>

datatype next_question =
    Review jsobject code_units
  | Question string "string option"

text \<open>
  \<^verbatim>\<open>getNextQuestion\<close>: the review message when no slot is left, else the next slot
  with its prompt. Reading \<^verbatim>\<open>slotConfig.question\<close> throws when the next slot has
  no definition.
\<close>

definition getNextQuestion :: "slot_schema \<Rightarrow> jsobject \<Rightarrow> js_error + next_question" where
  "getNextQuestion slots filledSlots =
     (case getNextUnfilledSlot slots filledSlots of
        Inl e \<Rightarrow> Inl e
      | Inr (None, msgs) \<Rightarrow> Inr (Review filledSlots (generateReviewMessage slots filledSlots))
      | Inr (Some nextSlot, msgs) \<Rightarrow>
          (case slots_get slots nextSlot of
             NoSlot \<Rightarrow> Inl TypeError
           | r \<Rightarrow> Inr (Question nextSlot (slot_question r))))"

section \<open>Corrections\<close>

text \<open>
  The answer of the correction model after parsing: a list of corrections, or \<open>None\<close>
  when the call or the parsing fails.
\<close>

record correction =
  correctedSlot :: string
  newValue :: jsval

text \<open>Step 1: the loop over \<^verbatim>\<open>parsed.corrections\<close>.\<close>

definition llm_step ::
  "slot_schema \<Rightarrow> string \<Rightarrow> correction \<Rightarrow> jsobject \<times> memory \<Rightarrow> jsobject \<times> memory" where
  "llm_step slots userResponse c st =
     (let (updated, m) = st; name = correctedSlot c in
      if slots_get slots name \<noteq> NoSlot \<and> strict_neq (obj_get updated name) (newValue c) then
        (obj_set updated name (newValue c),
         saveInteraction m (Some (''Correction for '' @ name)) userResponse (newValue c) name)
      else (updated, m))"

fun llm_loop ::
  "slot_schema \<Rightarrow> string \<Rightarrow> correction list \<Rightarrow> jsobject \<times> memory \<Rightarrow> jsobject \<times> memory" where
  "llm_loop slots userResponse [] st = st"
| "llm_loop slots userResponse (c # cs) st =
     llm_loop slots userResponse cs (llm_step slots userResponse c st)"

text \<open>
  The regular expressions of the fallback. A slot id is taken to consist of letters,
  digits and \<^verbatim>\<open>_\<close>, as every id of the schema does, so that each of its characters
  stands for itself in the pattern built from it.
\<close>

definition has_is_prefix :: regex where
  "has_is_prefix = Seq Bol (Group (Alt (lit ''has_'') (lit ''is_'')))"

definition yes_words :: regex where
  "yes_words =
     Seq Bol (Group (alts (map lit [''yes'', ''true'', ''y'', ''have'', ''with'', ''married''])))"

definition no_words :: regex where
  "no_words =
     Seq Bol (Group (alts (map lit [''no'', ''false'', ''n'', ''single'', ''none'', ''without''])))"

text \<open>\<^verbatim>\<open>slotName.replace(/_/g, '[ _]')\<close> and \<^verbatim>\<open>slotName.replace(/_/g, ' ')\<close> as patterns.\<close>

definition slotPattern :: "string \<Rightarrow> regex" where
  "slotPattern name =
     foldr (\<lambda>c r. Seq (if c = CHR ''_'' then OneOf '' _'' else Chr c) r) name Eps"

definition words :: "string \<Rightarrow> regex" where
  "words name = lit (map (\<lambda>c. if c = CHR ''_'' then CHR '' '' else c) name)"

text \<open>\<^verbatim>\<open>${slotPattern}\s*[:=]\s*(.+)\<close>\<close>

definition strict_regex :: "string \<Rightarrow> regex" where
  "strict_regex name =
     Seq (slotPattern name)
       (Seq (Star Space) (Seq (OneOf '':='') (Seq (Star Space) (Group (OneOrMore AnyChar)))))"

text \<open>\<^verbatim>\<open>(?:change|update|correct|set).{0,40}${words}.{0,20}(?:to|is|=)\s+(.+)\<close>\<close>

definition regex1 :: "string \<Rightarrow> regex" where
  "regex1 name =
     Seq (alts (map lit [''change'', ''update'', ''correct'', ''set'']))
       (Seq (Upto 40 AnyChar)
         (Seq (words name)
           (Seq (Upto 20 AnyChar)
             (Seq (alts (map lit [''to'', ''is'', ''='']))
               (Seq (OneOrMore Space) (Group (OneOrMore AnyChar)))))))"

text \<open>\<^verbatim>\<open>${words}\s+(?:is|=)\s+(.+)\<close>\<close>

definition regex2 :: "string \<Rightarrow> regex" where
  "regex2 name =
     Seq (words name)
       (Seq (OneOrMore Space)
         (Seq (alts (map lit [''is'', ''='']))
           (Seq (OneOrMore Space) (Group (OneOrMore AnyChar)))))"

text \<open>\<^verbatim>\<open>/\bi am single\b/i\<close>, \<^verbatim>\<open>/\bmarried\b|\bspouse\b|\bhusband\b|\bwife\b/\<close>, \<^verbatim>\<open>/has_partner/\<close>\<close>

definition i_am_single :: regex where
  "i_am_single = Seq WordB (Seq (lit ''i am single'') WordB)"

definition married_words :: regex where
  "married_words =
     alts (map (\<lambda>w. Seq WordB (Seq (lit w) WordB)) [''married'', ''spouse'', ''husband'', ''wife''])"

definition has_partner_rx :: regex where
  "has_partner_rx = lit ''has_partner''"

text \<open>
  \<^verbatim>\<open>str.match(regex)\<close>: \<open>None\<close> for null, else group 1 of the match;
  \<^verbatim>\<open>m && m[1]\<close> is then the group when it is a non-empty string.
\<close>

definition rx_exec :: "bool \<Rightarrow> regex \<Rightarrow> string \<Rightarrow> string option option" where
  "rx_exec icase r s = map_option (\<lambda>st. snd (snd st)) (rx_scan icase r None s)"

definition group1 :: "string option option \<Rightarrow> string option" where
  "group1 m =
     (case m of
        Some (Some t) \<Rightarrow> if t = [] then None else Some t
      | _ \<Rightarrow> None)"

definition isBoolean :: "jsval \<Rightarrow> bool" where
  "isBoolean v = (case v of JBool b \<Rightarrow> True | _ \<Rightarrow> False)"

text \<open>\<^verbatim>\<open>assignValue(slot, val)\<close>, which reads \<^verbatim>\<open>filledSlots\<close> and writes \<^verbatim>\<open>updated\<close>.\<close>

definition assignValue :: "jsobject \<Rightarrow> jsobject \<Rightarrow> string \<Rightarrow> string \<Rightarrow> jsobject" where
  "assignValue filledSlots updated name v =
     (let looksBoolean = (isBoolean (obj_get filledSlots name) \<or> rx_test False has_is_prefix name);
          w = toLowerCase v
      in if looksBoolean \<and> rx_test True yes_words w then obj_set updated name (JBool True)
         else if looksBoolean \<and> rx_test True no_words w then obj_set updated name (JBool False)
         else obj_set updated name (Str (trim v)))"

text \<open>
  The shared tail of both pattern loops: assign the captured text and log a correction
  when the stored value changed.
\<close>

definition assign_and_log ::
  "jsobject \<Rightarrow> string \<Rightarrow> string \<Rightarrow> string \<Rightarrow> jsobject \<times> memory \<Rightarrow> jsobject \<times> memory" where
  "assign_and_log filledSlots userResponse name v st =
     (let (updated, m) = st;
          previous = obj_get updated name;
          updated' = assignValue filledSlots updated name v
      in if previous \<noteq> obj_get updated' name then
           (updated',
            saveInteraction m (Some (''Correction for '' @ name)) userResponse
              (obj_get updated' name) name)
         else (updated', m))"

text \<open>Loop 1, the strict \<^verbatim>\<open>field: value\<close> form.\<close>

definition strict_step ::
  "jsobject \<Rightarrow> string \<Rightarrow> string \<Rightarrow> jsobject \<times> memory \<Rightarrow> jsobject \<times> memory" where
  "strict_step filledSlots userResponse name st =
     (case group1 (rx_exec True (strict_regex name) userResponse) of
        Some v \<Rightarrow> assign_and_log filledSlots userResponse name v st
      | None \<Rightarrow> st)"

text \<open>Loop 2, the natural-language forms and the two phrases about a partner.\<close>

definition natural_match :: "string \<Rightarrow> string \<Rightarrow> string option" where
  "natural_match name userResponse =
     group1 (case rx_exec True (regex1 name) userResponse of
               Some g \<Rightarrow> Some g
             | None \<Rightarrow> rx_exec True (regex2 name) userResponse)"

definition single_phrase :: "string \<Rightarrow> string \<Rightarrow> bool" where
  "single_phrase name userResponse =
     (rx_test True i_am_single (toLowerCase userResponse) \<and> rx_test False has_partner_rx name)"

definition married_phrase :: "string \<Rightarrow> string \<Rightarrow> bool" where
  "married_phrase name userResponse =
     (rx_test False married_words (toLowerCase userResponse) \<and> rx_test False has_partner_rx name)"

definition natural_step ::
  "jsobject \<Rightarrow> string \<Rightarrow> string \<Rightarrow> jsobject \<times> memory \<Rightarrow> jsobject \<times> memory" where
  "natural_step filledSlots userResponse name st =
     (let st1 = (case natural_match name userResponse of
                   Some v \<Rightarrow> assign_and_log filledSlots userResponse name v st
                 | None \<Rightarrow> st);
          st2 = (if single_phrase name userResponse then
                   (obj_set (fst st1) name (JBool False),
                    saveInteraction (snd st1) (Some (''Correction for '' @ name)) userResponse
                      (JBool False) name)
                 else st1)
      in if married_phrase name userResponse then
           (obj_set (fst st2) name (JBool True),
            saveInteraction (snd st2) (Some (''Correction for '' @ name)) userResponse
              (JBool True) name)
         else st2)"

text \<open>
  \<^verbatim>\<open>applyCorrections\<close>: the corrections of the model when it answered, then the two
  loops over \<^verbatim>\<open>Object.keys(SLOT_SCHEMA.slots)\<close>. The result is \<open>updated\<close> with the
  memory after the logged corrections.
\<close>

definition pattern_fallback ::
  "slot_schema \<Rightarrow> string \<Rightarrow> jsobject \<Rightarrow> jsobject \<times> memory \<Rightarrow> jsobject \<times> memory" where
  "pattern_fallback slots userResponse filledSlots st =
     foldl (\<lambda>s name. natural_step filledSlots userResponse name s)
       (foldl (\<lambda>s name. strict_step filledSlots userResponse name s) st (map fst slots))
       (map fst slots)"

definition applyCorrections ::
  "slot_schema \<Rightarrow> correction list option \<Rightarrow> string \<Rightarrow> jsobject \<Rightarrow> memory \<Rightarrow> jsobject \<times> memory"
where
  "applyCorrections slots parsed userResponse filledSlots m =
     pattern_fallback slots userResponse filledSlots
       (case parsed of
          None \<Rightarrow> (filledSlots, m)
        | Some cs \<Rightarrow> llm_loop slots userResponse cs (filledSlots, m))"

section \<open>Routing and single-slot extraction\<close>

text \<open>
  The language model is outside the program. A turn is given what it answers:
  the router's decision (\<open>None\<close> when the call or the parsing of its answer throws),
  the list returned by \<^verbatim>\<open>extractMultipleSlots\<close>, the answer of the single-slot
  extraction chain (\<open>None\<close> when \<^verbatim>\<open>invoke\<close> throws), and the text returned by
  \<^verbatim>\<open>generateClarificationQuestion\<close>.
\<close>

datatype action = Extract | Ask | Clarify

record delegates =
  decision :: "action option"
  multi :: "extraction list"
  chain :: "(jsval \<times> rat) option"
  clarification :: string

record router_result =
  action :: action
  extractions :: "extraction list"

text \<open>
  \<^verbatim>\<open>routeUserResponse\<close>: an unknown current slot and a failing model call are caught
  and answered with \<^verbatim>\<open>ask\<close>; an \<^verbatim>\<open>extract\<close> decision carries the extractions of
  confidence at least 0.7.
\<close>

definition routeUserResponse :: "slot_schema \<Rightarrow> string \<Rightarrow> delegates \<Rightarrow> router_result" where
  "routeUserResponse availableSlots currentSlot d =
     (case slots_get availableSlots currentSlot of
        NoSlot \<Rightarrow> \<lparr>action = Ask, extractions = []\<rparr>
      | _ \<Rightarrow>
          (case decision d of
             None \<Rightarrow> \<lparr>action = Ask, extractions = []\<rparr>
           | Some Extract \<Rightarrow>
               \<lparr>action = Extract, extractions = filter (\<lambda>ext. confidence ext \<ge> 7 / 10) (multi d)\<rparr>
           | Some a \<Rightarrow> \<lparr>action = a, extractions = []\<rparr>))"

text \<open>\<^verbatim>\<open>preprocessResponse\<close> of the extraction chain module.\<close>

definition branch_word :: "string \<Rightarrow> branch \<Rightarrow> bool" where
  "branch_word lowerResponse b =
     list_ex (\<lambda>p. lowerResponse = toLowerCase p) (split_bar (pattern b))"

definition preprocessResponse :: "string \<Rightarrow> slot_ref \<Rightarrow> string" where
  "preprocessResponse userResponse slotConfig =
     (let lowerResponse = trim (toLowerCase userResponse);
          bs = (case slotConfig of Cfg cfg \<Rightarrow> branches cfg | _ \<Rightarrow> [])
      in case find (branch_word lowerResponse) bs of
           Some b \<Rightarrow> (case split_bar (pattern b) of p # _ \<Rightarrow> p | [] \<Rightarrow> [])
         | None \<Rightarrow>
             if lowerResponse \<in> set [''yes'', ''y'', ''true''] then ''yes''
             else if lowerResponse \<in> set [''no'', ''n'', ''false''] then ''no''
             else userResponse)"

text \<open>
  \<^verbatim>\<open>extractSlotValue\<close>: the preprocessed response when preprocessing changed it, else
  the value of the chain when its confidence is at least 0.7 and it is not null, else
  null.
\<close>

definition extractSlotValue :: "slot_schema \<Rightarrow> string \<Rightarrow> string \<Rightarrow> delegates \<Rightarrow> jsval" where
  "extractSlotValue slots name userResponse d =
     (let preprocessed = preprocessResponse userResponse (slots_get slots name) in
      if preprocessed \<noteq> userResponse then Str preprocessed
      else (case chain d of
              None \<Rightarrow> Null
            | Some (v, c) \<Rightarrow> if c \<ge> 7 / 10 \<and> v \<noteq> Null then v else Null))"

text \<open>
  \<^verbatim>\<open>!v\<close> is false for a non-empty string, \<^verbatim>\<open>true\<close>, a number other than zero and
  \<^verbatim>\<open>NaN\<close>, an array, an object.
\<close>

definition truthy :: "jsval \<Rightarrow> bool" where
  "truthy v =
     (case v of
        Undefined \<Rightarrow> False
      | Null \<Rightarrow> False
      | JBool b \<Rightarrow> b
      | Num t \<Rightarrow> t \<noteq> ''0'' \<and> t \<noteq> ''NaN''
      | Str s \<Rightarrow> s \<noteq> []
      | Arr xs \<Rightarrow> True
      | Obj \<Rightarrow> True
      | Inherited n \<Rightarrow> True)"

section \<open>Turn processing\<close>

text \<open>
  The object returned by \<^verbatim>\<open>processResponse\<close>: a reprompt
  (\<^verbatim>\<open>success: false\<close>, the error text, \<^verbatim>\<open>isClarification\<close>), or the accepted turn
  (\<^verbatim>\<open>success: true\<close>, the new \<^verbatim>\<open>filledSlots\<close>, \<^verbatim>\<open>extractedSlots\<close>,
  \<^verbatim>\<open>isHybridExtraction\<close>, and the fields of the next question).
\<close>

datatype turn_result =
    Reprompt "string option" bool
  | Accepted jsobject "extraction list" bool next_question

text \<open>
  The \<^verbatim>\<open>try\<close> block of the hybrid mode. \<open>None\<close> as the result means that control
  leaves the block for the single-slot processing: after \<^verbatim>\<open>ask\<close>, and when
  \<^verbatim>\<open>getNextQuestion\<close> throws inside the block, which the \<^verbatim>\<open>catch\<close> swallows.
\<close>

definition hybrid_turn ::
  "slot_schema \<Rightarrow> delegates \<Rightarrow> string \<Rightarrow> string \<Rightarrow> jsobject \<Rightarrow> memory
     \<Rightarrow> turn_result option \<times> memory" where
  "hybrid_turn slots d currentSlot userResponse filledSlots m =
     (let q = slot_question (slots_get slots currentSlot);
          routerResult = routeUserResponse slots currentSlot d
      in case action routerResult of
           Extract \<Rightarrow>
             (let (multiResult, m1) =
                    processMultipleExtractions slots (extractions routerResult) filledSlots m
              in case successfulExtractions multiResult of
                   first # _ \<Rightarrow>
                     (let m2 = saveInteraction m1 q userResponse (val first) currentSlot
                      in case getNextQuestion slots (updatedSlots multiResult) of
                           Inr nextQuestion \<Rightarrow>
                             (Some (Accepted (updatedSlots multiResult)
                                      (successfulExtractions multiResult) True nextQuestion), m2)
                         | Inl e \<Rightarrow> (None, m2))
                 | [] \<Rightarrow>
                     (Some (Reprompt (Some (clarification d)) True),
                      saveInteraction m1 q userResponse Null currentSlot))
         | Clarify \<Rightarrow>
             (Some (Reprompt (Some (clarification d)) True),
              saveInteraction m q userResponse Null currentSlot)
         | Ask \<Rightarrow> (None, m))"

text \<open>The single-slot processing after the hybrid block.\<close>

definition standard_turn ::
  "slot_schema \<Rightarrow> delegates \<Rightarrow> string \<Rightarrow> string \<Rightarrow> jsobject \<Rightarrow> memory
     \<Rightarrow> js_error + (turn_result \<times> memory)" where
  "standard_turn slots d currentSlot userResponse filledSlots m =
     (let q = slot_question (slots_get slots currentSlot);
          extractedValue = extractSlotValue slots currentSlot userResponse d
      in if \<not> truthy extractedValue then
           Inr (Reprompt (Some (clarification d)) True,
                saveInteraction m q userResponse Null currentSlot)
         else
           (let validation = validateSlotValue slots currentSlot extractedValue in
            if \<not> isValid validation then
              Inr (Reprompt (error validation) False,
                   saveInteraction m q userResponse Null currentSlot)
            else
              (let updated = obj_put currentSlot extractedValue filledSlots;
                   m1 = saveInteraction m q userResponse extractedValue currentSlot
               in case getNextQuestion slots updated of
                    Inl e \<Rightarrow> Inl e
                  | Inr nextQuestion \<Rightarrow> Inr (Accepted updated [] False nextQuestion, m1))))"

text \<open>
  \<^verbatim>\<open>processResponse(currentSlot, userResponse, filledSlots)\<close>. Reading
  \<^verbatim>\<open>slotConfig.question\<close> throws at once when the current slot has no definition.
\<close>

definition processResponse ::
  "bool \<Rightarrow> slot_schema \<Rightarrow> delegates \<Rightarrow> string \<Rightarrow> string \<Rightarrow> jsobject \<Rightarrow> memory
     \<Rightarrow> js_error + (turn_result \<times> memory)" where
  "processResponse hybridMode slots d currentSlot userResponse filledSlots m =
     (if slots_get slots currentSlot = NoSlot then Inl TypeError
      else if hybridMode then
        (case hybrid_turn slots d currentSlot userResponse filledSlots m of
           (Some r, m') \<Rightarrow> Inr (r, m')
         | (None, m') \<Rightarrow> standard_turn slots d currentSlot userResponse filledSlots m')
      else standard_turn slots d currentSlot userResponse filledSlots m)"

section \<open>The turn endpoint and its client\<close>






section \<open>Reading a review message\<close>

text \<open>
  The lines of a text, cut at the line breaks, and the lines of a review message
  between its header and its footer; no line when nothing is between them.
\<close>

fun split_lines :: "code_units \<Rightarrow> code_units list" where
  "split_lines [] = [[]]"
| "split_lines (c # cs) =
     (if c = 10 then [] # split_lines cs
      else (case split_lines cs of [] \<Rightarrow> [[c]] | l # ls \<Rightarrow> (c # l) # ls))"

definition summary_lines :: "code_units \<Rightarrow> code_units list" where
  "summary_lines msg =
     (let body = take (length msg - length review_header - length review_footer)
                   (drop (length review_header) msg)
      in if body = [] then [] else split_lines body)"

section \<open>Well-formed slot graphs\<close>








section \<open>Scenario data\<close>

definition empty_memory :: memory where
  "empty_memory = \<lparr>messages = [], interactionCount = 0\<rparr>"


text \<open>
  The test of the merge loop, a candidate extraction with a string value, and the
  answers of the model for a turn that the router sends to extraction.
\<close>

definition acceptable :: "slot_schema \<Rightarrow> extraction \<Rightarrow> bool" where
  "acceptable slots e =
     (isValid (validateSlotValue slots (slotName e) (val e)) \<and> confidence e \<ge> 7 / 10)"

definition candidate :: "string \<Rightarrow> string \<Rightarrow> rat \<Rightarrow> extraction" where
  "candidate name v c = \<lparr>slotName = name, val = Str v, confidence = c\<rparr>"

definition extract_with :: "extraction list \<Rightarrow> delegates" where
  "extract_with exs =
     \<lparr>decision = Some Extract, multi = exs, chain = None,
      clarification = ''Could you tell me a bit more?''\<rparr>"

text \<open>
  An utterance matches no slot pattern of the fallback when, for every slot of the
  schema, neither the strict form nor a natural-language form matches. A partner
  phrase applies when the utterance has one of the two phrases about a partner and the
  schema has a slot whose id contains \<^verbatim>\<open>has_partner\<close>. A correction of the model is
  applicable when it names a slot and its value is not the stored one.
\<close>

definition no_slot_pattern_match :: "slot_schema \<Rightarrow> string \<Rightarrow> bool" where
  "no_slot_pattern_match slots userResponse =
     list_all
       (\<lambda>name. group1 (rx_exec True (strict_regex name) userResponse) = None
               \<and> natural_match name userResponse = None)
       (map fst slots)"

definition partner_phrase_applies :: "slot_schema \<Rightarrow> string \<Rightarrow> bool" where
  "partner_phrase_applies slots userResponse =
     list_ex (\<lambda>name. single_phrase name userResponse \<or> married_phrase name userResponse)
       (map fst slots)"

definition applicable :: "slot_schema \<Rightarrow> jsobject \<Rightarrow> correction \<Rightarrow> bool" where
  "applicable slots obj c =
     (slots_get slots (correctedSlot c) \<noteq> NoSlot
      \<and> strict_neq (obj_get obj (correctedSlot c)) (newValue c))"

definition no_applicable_correction ::
  "slot_schema \<Rightarrow> jsobject \<Rightarrow> correction list option \<Rightarrow> bool" where
  "no_applicable_correction slots obj parsed =
     (case parsed of None \<Rightarrow> True | Some cs \<Rightarrow> \<not> list_ex (applicable slots obj) cs)"





section \<open>Properties of the slot graph traversal\<close>

declare walk.simps [simp del]





















section \<open>Properties of the extraction merge\<close>

lemma map_of_obj_put: "map_of (obj_put k v ps) = (map_of ps)(k \<mapsto> v)"
  by (induction ps) auto

lemma obj_get_obj_set_other: "k' \<noteq> k \<Longrightarrow> obj_get (obj_set u k' v) k = obj_get u k"
  by (simp add: obj_get_def obj_set_def map_of_obj_put)

lemma obj_get_obj_set_same: "k \<noteq> ''__proto__'' \<Longrightarrow> obj_get (obj_set u k v) k = v"
  by (simp add: obj_get_def obj_set_def map_of_obj_put)

lemma merge_step_accept:
  "acceptable slots e \<Longrightarrow>
   merge_step slots e (r, m) =
     (r\<lparr>updatedSlots := obj_set (updatedSlots r) (slotName e) (val e),
        successfulExtractions := successfulExtractions r @ [accept e]\<rparr>,
      saveInteraction m (slot_question (slots_get slots (slotName e)))
        (''[Multi-extraction] '' @ String_js (val e)) (val e) (slotName e))"
  by (simp add: merge_step_def acceptable_def)

lemma merge_step_reject:
  "\<not> acceptable slots e \<Longrightarrow>
   merge_step slots e (r, m) =
     (r\<lparr>failedExtractions := failedExtractions r
          @ [reject e (error (validateSlotValue slots (slotName e) (val e)))]\<rparr>, m)"
  by (auto simp: merge_step_def acceptable_def Let_def)

lemma merge_loop_successful:
  "successfulExtractions (fst (merge_loop slots exs st)) =
     successfulExtractions (fst st) @ map accept (filter (acceptable slots) exs)"
proof (induction exs arbitrary: st)
  case Nil
  show ?case by simp
next
  case (Cons e es)
  obtain r m where st: "st = (r, m)" by (cases st)
  show ?case
    by (cases "acceptable slots e") (simp_all add: Cons st merge_step_accept merge_step_reject)
qed

lemma merge_loop_failed:
  "failedExtractions (fst (merge_loop slots exs st)) =
     failedExtractions (fst st)
     @ map (\<lambda>e. reject e (error (validateSlotValue slots (slotName e) (val e))))
         (filter (\<lambda>e. \<not> acceptable slots e) exs)"
proof (induction exs arbitrary: st)
  case Nil
  show ?case by simp
next
  case (Cons e es)
  obtain r m where st: "st = (r, m)" by (cases st)
  show ?case
    by (cases "acceptable slots e") (simp_all add: Cons st merge_step_accept merge_step_reject)
qed

lemma merge_loop_updated:
  "updatedSlots (fst (merge_loop slots exs st)) =
     foldl (\<lambda>u e. obj_set u (slotName e) (val e)) (updatedSlots (fst st))
       (filter (acceptable slots) exs)"
proof (induction exs arbitrary: st)
  case Nil
  show ?case by simp
next
  case (Cons e es)
  obtain r m where st: "st = (r, m)" by (cases st)
  show ?case
    by (cases "acceptable slots e") (simp_all add: Cons st merge_step_accept merge_step_reject)
qed

lemma merge_loop_memory_unchanged:
  "filter (acceptable slots) exs = [] \<Longrightarrow> snd (merge_loop slots exs st) = snd st"
proof (induction exs arbitrary: st)
  case Nil
  show ?case by simp
next
  case (Cons e es)
  obtain r m where st: "st = (r, m)" by (cases st)
  from Cons.prems have "\<not> acceptable slots e" and "filter (acceptable slots) es = []"
    by (auto split: if_splits)
  then show ?case
    using Cons.IH by (simp add: st merge_step_reject)
qed

lemma foldl_obj_set_other:
  "\<not> list_ex (\<lambda>x. slotName x = k) xs \<Longrightarrow>
   obj_get (foldl (\<lambda>u e. obj_set u (slotName e) (val e)) u xs) k = obj_get u k"
  by (induction xs arbitrary: u) (auto simp: obj_get_obj_set_other)

lemma confidence_accept: "confidence (accept e) = confidence e"
  by (simp add: accept_def)

text \<open>
  Claim C3. Whatever the candidate list, every accepted extraction of one merge call
  has confidence at least 0.7, and every candidate of confidence below 0.7 is in the
  rejected output, with the error of its validation, and not among the accepted. The
  extractions that the router hands to the merge already passed the same threshold.
\<close>

theorem merge_threshold:
  "(\<forall>a \<in> set (successfulExtractions (fst (processMultipleExtractions slots exs filledSlots m))).
       confidence a \<ge> 7 / 10)
   \<and> (\<forall>e \<in> set exs. confidence e < 7 / 10 \<longrightarrow>
         reject e (error (validateSlotValue slots (slotName e) (val e)))
           \<in> set (failedExtractions (fst (processMultipleExtractions slots exs filledSlots m)))
         \<and> accept e \<notin> set (successfulExtractions
                              (fst (processMultipleExtractions slots exs filledSlots m))))
   \<and> (\<forall>x \<in> set (extractions (routeUserResponse slots currentSlot d)). confidence x \<ge> 7 / 10)"
proof (intro conjI ballI impI)
  fix a
  assume "a \<in> set (successfulExtractions (fst (processMultipleExtractions slots exs filledSlots m)))"
  then obtain e where "acceptable slots e" and "a = accept e"
    by (auto simp: processMultipleExtractions_def merge_loop_successful)
  then show "confidence a \<ge> 7 / 10"
    by (simp add: acceptable_def confidence_accept)
next
  fix e
  assume e: "e \<in> set exs" and low: "confidence e < 7 / 10"
  then have "\<not> acceptable slots e"
    by (simp add: acceptable_def)
  with e show "reject e (error (validateSlotValue slots (slotName e) (val e)))
           \<in> set (failedExtractions (fst (processMultipleExtractions slots exs filledSlots m)))"
    by (simp add: processMultipleExtractions_def merge_loop_failed)
next
  fix e
  assume e: "e \<in> set exs" and low: "confidence e < 7 / 10"
  show "accept e \<notin> set (successfulExtractions
                              (fst (processMultipleExtractions slots exs filledSlots m)))"
  proof
    assume "accept e \<in> set (successfulExtractions
                              (fst (processMultipleExtractions slots exs filledSlots m)))"
    then obtain x where "acceptable slots x" and "accept e = accept x"
      by (auto simp: processMultipleExtractions_def merge_loop_successful)
    then have "confidence e \<ge> 7 / 10"
      by (metis acceptable_def confidence_accept)
    with low show False by simp
  qed
next
  fix x
  assume "x \<in> set (extractions (routeUserResponse slots currentSlot d))"
  then show "confidence x \<ge> 7 / 10"
    by (auto simp: routeUserResponse_def split: slot_ref.splits option.splits action.splits)
qed

theorem merge_threshold_witness:
  "candidate ''dob'' ''1990'' (1 / 2) \<in> set [candidate ''full_name'' ''Jane'' (9 / 10), candidate ''dob'' ''1990'' (1 / 2)]
   \<and> confidence (candidate ''dob'' ''1990'' (1 / 2)) < 7 / 10
   \<and> reject (candidate ''dob'' ''1990'' (1 / 2)) None
       \<in> set (failedExtractions (fst (processMultipleExtractions SLOT_SCHEMA
            [candidate ''full_name'' ''Jane'' (9 / 10), candidate ''dob'' ''1990'' (1 / 2)] []
            empty_memory)))
   \<and> successfulExtractions (fst (processMultipleExtractions SLOT_SCHEMA
            [candidate ''full_name'' ''Jane'' (9 / 10), candidate ''dob'' ''1990'' (1 / 2)] []
            empty_memory)) = [candidate ''full_name'' ''Jane'' (9 / 10)]
   \<and> confidence (candidate ''full_name'' ''Jane'' (9 / 10)) \<ge> 7 / 10"
proof -
  let ?exs = "[candidate ''full_name'' ''Jane'' (9 / 10), candidate ''dob'' ''1990'' (1 / 2)]"
  have mem: "candidate ''dob'' ''1990'' (1 / 2) \<in> set ?exs"
    by simp
  have low: "confidence (candidate ''dob'' ''1990'' (1 / 2)) < 7 / 10"
    by (simp add: candidate_def)
  have v: "error (validateSlotValue SLOT_SCHEMA (slotName (candidate ''dob'' ''1990'' (1 / 2)))
             (val (candidate ''dob'' ''1990'' (1 / 2)))) = None"
    by code_simp
  have s: "successfulExtractions (fst (processMultipleExtractions SLOT_SCHEMA ?exs []
            empty_memory)) = [candidate ''full_name'' ''Jane'' (9 / 10)]"
    by code_simp
  from merge_threshold [of SLOT_SCHEMA ?exs "[]" empty_memory]
  have "\<forall>a \<in> set (successfulExtractions (fst (processMultipleExtractions SLOT_SCHEMA ?exs []
            empty_memory))). confidence a \<ge> 7 / 10"
    and "\<forall>e \<in> set ?exs. confidence e < 7 / 10 \<longrightarrow>
         reject e (error (validateSlotValue SLOT_SCHEMA (slotName e) (val e)))
           \<in> set (failedExtractions (fst (processMultipleExtractions SLOT_SCHEMA ?exs [] empty_memory)))"
    by blast+
  with mem low v s show ?thesis
    by (metis list.set_intros(1))
qed

text \<open>
  The conflict policy of the specification fails on the code. On the scenario input
  the slot \<open>first_name\<close> is not in the schema and both candidates are rejected, so
  the accepted list is empty. With the schema's \<open>full_name\<close> in its place both
  candidates are accepted, with the higher confidence first the stored value is the
  one of lower confidence, and on a tie it is the later one.
\<close>

theorem merge_conflict_counterexample:
  "successfulExtractions (fst (processMultipleExtractions SLOT_SCHEMA
      [candidate ''first_name'' ''John'' (9 / 10), candidate ''first_name'' ''Jon'' (95 / 100)]
      [] empty_memory)) = []
   \<and> successfulExtractions (fst (processMultipleExtractions SLOT_SCHEMA
      [candidate ''full_name'' ''John'' (9 / 10), candidate ''full_name'' ''Jon'' (95 / 100)]
      [] empty_memory))
     = [candidate ''full_name'' ''John'' (9 / 10), candidate ''full_name'' ''Jon'' (95 / 100)]
   \<and> updatedSlots (fst (processMultipleExtractions SLOT_SCHEMA
      [candidate ''full_name'' ''Jon'' (95 / 100), candidate ''full_name'' ''John'' (9 / 10)]
      [] empty_memory)) = [(''full_name'', Str ''John'')]
   \<and> updatedSlots (fst (processMultipleExtractions SLOT_SCHEMA
      [candidate ''full_name'' ''Jon'' (9 / 10), candidate ''full_name'' ''John'' (9 / 10)]
      [] empty_memory)) = [(''full_name'', Str ''John'')]"
proof (intro conjI)
  show "updatedSlots (fst (processMultipleExtractions SLOT_SCHEMA
      [candidate ''full_name'' ''Jon'' (9 / 10), candidate ''full_name'' ''John'' (9 / 10)]
      [] empty_memory)) = [(''full_name'', Str ''John'')]"
    by code_simp
  show "successfulExtractions (fst (processMultipleExtractions SLOT_SCHEMA
      [candidate ''first_name'' ''John'' (9 / 10), candidate ''first_name'' ''Jon'' (95 / 100)]
      [] empty_memory)) = []"
    by code_simp
  show "successfulExtractions (fst (processMultipleExtractions SLOT_SCHEMA
      [candidate ''full_name'' ''John'' (9 / 10), candidate ''full_name'' ''Jon'' (95 / 100)]
      [] empty_memory))
     = [candidate ''full_name'' ''John'' (9 / 10), candidate ''full_name'' ''Jon'' (95 / 100)]"
    by code_simp
  show "updatedSlots (fst (processMultipleExtractions SLOT_SCHEMA
      [candidate ''full_name'' ''Jon'' (95 / 100), candidate ''full_name'' ''John'' (9 / 10)]
      [] empty_memory)) = [(''full_name'', Str ''John'')]"
    by code_simp
qed

lemma first_name_rejected:
  "\<not> acceptable SLOT_SCHEMA (candidate ''first_name'' ''John'' (9 / 10))
   \<and> \<not> acceptable SLOT_SCHEMA (candidate ''first_name'' ''Jon'' (95 / 100))
   \<and> error (validateSlotValue SLOT_SCHEMA (slotName (candidate ''first_name'' ''John'' (9 / 10)))
        (val (candidate ''first_name'' ''John'' (9 / 10)))) = Some ''Invalid slot name''
   \<and> error (validateSlotValue SLOT_SCHEMA (slotName (candidate ''first_name'' ''Jon'' (95 / 100)))
        (val (candidate ''first_name'' ''Jon'' (95 / 100)))) = Some ''Invalid slot name''"
  by code_simp

text \<open>
  Claim C1, as the code has it. One merge call accepts every candidate with a valid
  value and confidence at least 0.7, in input order and without comparing
  confidences, and rejects every other candidate with the error of its validation:
  two accepted candidates for one slot are both in the accepted list. The value then
  read for a slot name other than \<^verbatim>\<open>__proto__\<close> is the value of the last accepted
  candidate that names it. On the scenario input, whatever the slot map and the
  memory, \<open>first_name\<close> is no slot of the schema: the accepted list is empty, both
  candidates are in the rejected list with the error \<open>Invalid slot name\<close>, and the
  slot map is unchanged.
\<close>

theorem merge_last_accepted_wins:
  "successfulExtractions (fst (processMultipleExtractions slots exs filledSlots m))
     = map accept (filter (acceptable slots) exs)
   \<and> failedExtractions (fst (processMultipleExtractions slots exs filledSlots m))
     = map (\<lambda>e. reject e (error (validateSlotValue slots (slotName e) (val e))))
         (filter (\<lambda>e. \<not> acceptable slots e) exs)
   \<and> (exs = pre @ e # post \<and> acceptable slots e \<and> slotName e \<noteq> ''__proto__''
        \<and> \<not> list_ex (\<lambda>x. acceptable slots x \<and> slotName x = slotName e) post
      \<longrightarrow> obj_get (updatedSlots (fst (processMultipleExtractions slots exs filledSlots m)))
            (slotName e) = val e)
   \<and> successfulExtractions (fst (processMultipleExtractions SLOT_SCHEMA
        [candidate ''first_name'' ''John'' (9 / 10), candidate ''first_name'' ''Jon'' (95 / 100)]
        filledSlots m)) = []
   \<and> failedExtractions (fst (processMultipleExtractions SLOT_SCHEMA
        [candidate ''first_name'' ''John'' (9 / 10), candidate ''first_name'' ''Jon'' (95 / 100)]
        filledSlots m))
     = [reject (candidate ''first_name'' ''John'' (9 / 10)) (Some ''Invalid slot name''),
        reject (candidate ''first_name'' ''Jon'' (95 / 100)) (Some ''Invalid slot name'')]
   \<and> updatedSlots (fst (processMultipleExtractions SLOT_SCHEMA
        [candidate ''first_name'' ''John'' (9 / 10), candidate ''first_name'' ''Jon'' (95 / 100)]
        filledSlots m)) = filledSlots"
proof (intro conjI impI)
  show "successfulExtractions (fst (processMultipleExtractions slots exs filledSlots m))
     = map accept (filter (acceptable slots) exs)"
    by (simp add: processMultipleExtractions_def merge_loop_successful)
next
  show "failedExtractions (fst (processMultipleExtractions slots exs filledSlots m))
     = map (\<lambda>e. reject e (error (validateSlotValue slots (slotName e) (val e))))
         (filter (\<lambda>e. \<not> acceptable slots e) exs)"
    by (simp add: processMultipleExtractions_def merge_loop_failed)
next
  let ?set = "\<lambda>u x. obj_set u (slotName x) (val x)"
  assume a: "exs = pre @ e # post \<and> acceptable slots e \<and> slotName e \<noteq> ''__proto__''
        \<and> \<not> list_ex (\<lambda>x. acceptable slots x \<and> slotName x = slotName e) post"
  then have later: "\<not> list_ex (\<lambda>x. slotName x = slotName e) (filter (acceptable slots) post)"
    by (auto simp: list_ex_iff)
  have "updatedSlots (fst (processMultipleExtractions slots exs filledSlots m))
          = foldl ?set (obj_set (foldl ?set filledSlots (filter (acceptable slots) pre))
                          (slotName e) (val e))
              (filter (acceptable slots) post)"
    using a by (simp add: processMultipleExtractions_def merge_loop_updated)
  then show "obj_get (updatedSlots (fst (processMultipleExtractions slots exs filledSlots m)))
            (slotName e) = val e"
    using a later by (simp add: foldl_obj_set_other obj_get_obj_set_same)
next
  let ?exs = "[candidate ''first_name'' ''John'' (9 / 10), candidate ''first_name'' ''Jon'' (95 / 100)]"
  have none: "filter (acceptable SLOT_SCHEMA) ?exs = []"
    using first_name_rejected by simp
  have all: "map (\<lambda>e. reject e (error (validateSlotValue SLOT_SCHEMA (slotName e) (val e))))
               (filter (\<lambda>e. \<not> acceptable SLOT_SCHEMA e) ?exs)
             = [reject (candidate ''first_name'' ''John'' (9 / 10)) (Some ''Invalid slot name''),
                reject (candidate ''first_name'' ''Jon'' (95 / 100)) (Some ''Invalid slot name'')]"
    using first_name_rejected by simp
  show "successfulExtractions (fst (processMultipleExtractions SLOT_SCHEMA ?exs filledSlots m)) = []"
    unfolding processMultipleExtractions_def merge_loop_successful none by simp
  show "failedExtractions (fst (processMultipleExtractions SLOT_SCHEMA ?exs filledSlots m))
     = [reject (candidate ''first_name'' ''John'' (9 / 10)) (Some ''Invalid slot name''),
        reject (candidate ''first_name'' ''Jon'' (95 / 100)) (Some ''Invalid slot name'')]"
    unfolding processMultipleExtractions_def merge_loop_failed all by simp
  show "updatedSlots (fst (processMultipleExtractions SLOT_SCHEMA ?exs filledSlots m)) = filledSlots"
    unfolding processMultipleExtractions_def merge_loop_updated none by simp
qed

theorem merge_last_accepted_wins_witness:
  "[candidate ''full_name'' ''Jon'' (95 / 100), candidate ''full_name'' ''John'' (9 / 10)]
     = [candidate ''full_name'' ''Jon'' (95 / 100)] @ candidate ''full_name'' ''John'' (9 / 10) # []
   \<and> acceptable SLOT_SCHEMA (candidate ''full_name'' ''John'' (9 / 10))
   \<and> slotName (candidate ''full_name'' ''John'' (9 / 10)) \<noteq> ''__proto__''
   \<and> obj_get (updatedSlots (fst (processMultipleExtractions SLOT_SCHEMA
        [candidate ''full_name'' ''Jon'' (95 / 100), candidate ''full_name'' ''John'' (9 / 10)]
        [] empty_memory))) ''full_name'' = Str ''John''"
proof -
  let ?e = "candidate ''full_name'' ''John'' (9 / 10)"
  let ?exs = "[candidate ''full_name'' ''Jon'' (95 / 100), ?e]"
  have acc: "acceptable SLOT_SCHEMA ?e"
    by code_simp
  have nm: "slotName ?e = ''full_name''" and vl: "val ?e = Str ''John''"
    by (simp_all add: candidate_def)
  have np: "slotName ?e \<noteq> ''__proto__''"
    by (simp add: candidate_def)
  have hyp: "?exs = [candidate ''full_name'' ''Jon'' (95 / 100)] @ ?e # []
        \<and> acceptable SLOT_SCHEMA ?e \<and> slotName ?e \<noteq> ''__proto__''
        \<and> \<not> list_ex (\<lambda>x. acceptable SLOT_SCHEMA x \<and> slotName x = slotName ?e) []"
    using acc np by simp
  note last = merge_last_accepted_wins
      [of SLOT_SCHEMA ?exs "[]" empty_memory "[candidate ''full_name'' ''Jon'' (95 / 100)]" ?e "[]"]
  have "obj_get (updatedSlots (fst (processMultipleExtractions SLOT_SCHEMA ?exs [] empty_memory)))
          (slotName ?e) = val ?e"
    using last [THEN conjunct2, THEN conjunct2, THEN conjunct1] hyp by (rule mp)
  then have "obj_get (updatedSlots (fst (processMultipleExtractions SLOT_SCHEMA ?exs [] empty_memory)))
          ''full_name'' = Str ''John''"
    by (simp only: nm vl)
  with acc np show ?thesis
    by simp
qed

lemma validateSlotValue_unknown:
  "name \<notin> fst ` set slots \<Longrightarrow> name \<notin> set Object_prototype_names \<Longrightarrow>
   validateSlotValue slots name v = \<lparr>isValid = False, error = Some ''Invalid slot name''\<rparr>"
proof -
  assume "name \<notin> fst ` set slots" and "name \<notin> set Object_prototype_names"
  then have "map_of slots name = None" and "name \<notin> set Object_prototype_names"
    by (simp_all add: map_of_eq_None_iff)
  then have "slots_get slots name = NoSlot"
    by (simp add: slots_get_def)
  then show ?thesis
    by (simp add: validateSlotValue_def)
qed

text \<open>
  Claim C10. The validation looks the slot name up with \<^verbatim>\<open>SLOT_SCHEMA.slots[slotName]\<close>
  and rejects it when the result is falsy. \<open>constructor\<close> is not a key of the schema,
  but the lookup finds the member of \<^verbatim>\<open>Object.prototype\<close>, which is truthy: the
  value is validated as for a known slot, and the merge accepts the extraction.
\<close>

theorem inherited_name_is_accepted:
  "''constructor'' \<notin> fst ` set SLOT_SCHEMA
   \<and> validateSlotValue SLOT_SCHEMA ''constructor'' (Str ''x'') = \<lparr>isValid = True, error = None\<rparr>
   \<and> successfulExtractions (fst (processMultipleExtractions SLOT_SCHEMA
        [candidate ''constructor'' ''x'' (9 / 10)] [] empty_memory))
       = [candidate ''constructor'' ''x'' (9 / 10)]
   \<and> updatedSlots (fst (processMultipleExtractions SLOT_SCHEMA
        [candidate ''constructor'' ''x'' (9 / 10)] [] empty_memory))
       = [(''constructor'', Str ''x'')]"
proof (intro conjI)
  show "updatedSlots (fst (processMultipleExtractions SLOT_SCHEMA
        [candidate ''constructor'' ''x'' (9 / 10)] [] empty_memory))
       = [(''constructor'', Str ''x'')]"
    by code_simp
  show "''constructor'' \<notin> fst ` set SLOT_SCHEMA"
    by (simp add: SLOT_SCHEMA_def)
  show "validateSlotValue SLOT_SCHEMA ''constructor'' (Str ''x'') = \<lparr>isValid = True, error = None\<rparr>"
    by code_simp
  show "successfulExtractions (fst (processMultipleExtractions SLOT_SCHEMA
        [candidate ''constructor'' ''x'' (9 / 10)] [] empty_memory))
       = [candidate ''constructor'' ''x'' (9 / 10)]"
    by code_simp
qed

text \<open>
  Claim C7. In hybrid mode, when the router decides \<open>extract\<close> and the merge accepts no
  candidate, the turn is answered with the clarification text as a reprompt: the
  result carries no \<open>filledSlots\<close> and no next slot, the copy of \<open>filledSlots\<close> that
  the merge worked on is unchanged, and the memory gains the one interaction of the
  turn, with a null extracted value.
\<close>

theorem zero_accepted_reprompts:
  assumes "slots_get slots currentSlot \<noteq> NoSlot"
    and "decision d = Some Extract"
    and "successfulExtractions (fst (processMultipleExtractions slots
           (extractions (routeUserResponse slots currentSlot d)) filledSlots m)) = []"
  shows "processResponse True slots d currentSlot userResponse filledSlots m
           = Inr (Reprompt (Some (clarification d)) True,
                  saveInteraction m (slot_question (slots_get slots currentSlot))
                    userResponse Null currentSlot)
         \<and> updatedSlots (fst (processMultipleExtractions slots
              (extractions (routeUserResponse slots currentSlot d)) filledSlots m)) = filledSlots"
proof -
  let ?exs = "extractions (routeUserResponse slots currentSlot d)"
  let ?res = "processMultipleExtractions slots ?exs filledSlots m"
  have route: "action (routeUserResponse slots currentSlot d) = Extract"
    using assms(1,2) by (simp add: routeUserResponse_def split: slot_ref.splits)
  have none: "filter (acceptable slots) ?exs = []"
    using assms(3) by (simp add: processMultipleExtractions_def merge_loop_successful)
  then have mem: "snd ?res = m"
    by (simp add: processMultipleExtractions_def merge_loop_memory_unchanged)
  have upd: "updatedSlots (fst ?res) = filledSlots"
    using none by (simp add: processMultipleExtractions_def merge_loop_updated)
  obtain r m1 where res: "?res = (r, m1)"
    by (cases ?res)
  with assms(3) mem have "successfulExtractions r = []" and "m1 = m"
    by simp_all
  with route res
  have "hybrid_turn slots d currentSlot userResponse filledSlots m
          = (Some (Reprompt (Some (clarification d)) True),
             saveInteraction m (slot_question (slots_get slots currentSlot))
               userResponse Null currentSlot)"
    by (simp add: hybrid_turn_def Let_def)
  then show ?thesis
    using assms(1) upd by (simp add: processResponse_def)
qed

theorem zero_accepted_reprompts_witness:
  "slots_get SLOT_SCHEMA ''full_name'' \<noteq> NoSlot
   \<and> processResponse True SLOT_SCHEMA (extract_with [candidate ''first_name'' ''Bob'' (9 / 10)])
        ''full_name'' ''Bob'' [(''dob'', Str ''1990-01-01'')] empty_memory
       = Inr (Reprompt (Some ''Could you tell me a bit more?'') True,
              \<lparr>messages = [Ai (Some ''What is your full name?''), Human ''Bob'' Null ''full_name''],
               interactionCount = 1\<rparr>)"
proof -
  let ?d = "extract_with [candidate ''first_name'' ''Bob'' (9 / 10)]"
  have k: "slots_get SLOT_SCHEMA ''full_name'' \<noteq> NoSlot"
    by code_simp
  have dec: "decision ?d = Some Extract"
    by (simp add: extract_with_def)
  have z: "successfulExtractions (fst (processMultipleExtractions SLOT_SCHEMA
           (extractions (routeUserResponse SLOT_SCHEMA ''full_name'' ?d))
           [(''dob'', Str ''1990-01-01'')] empty_memory)) = []"
    by code_simp
  have c: "clarification ?d = ''Could you tell me a bit more?''"
    by (simp add: extract_with_def)
  have s: "saveInteraction empty_memory (slot_question (slots_get SLOT_SCHEMA ''full_name''))
             ''Bob'' Null ''full_name''
           = \<lparr>messages = [Ai (Some ''What is your full name?''), Human ''Bob'' Null ''full_name''],
              interactionCount = 1\<rparr>"
    by code_simp
  show ?thesis
    using zero_accepted_reprompts [OF k dec z, of "''Bob''"] k c s
    by simp
qed

section \<open>Properties of the correction engine\<close>

text \<open>
  The birth-year scenario fails on the pattern fallback. Its patterns are built from
  the slot ids, and the utterance names the slot \<open>dob\<close> by other words: with no
  answer from the correction model, no pattern matches, \<open>dob\<close> keeps its value and
  nothing is logged.
\<close>

theorem birth_year_counterexample:
  "applyCorrections SLOT_SCHEMA None ''change my birth year to 1987''
     [(''dob'', Str ''01/01/1989'')] empty_memory
   = ([(''dob'', Str ''01/01/1989'')], empty_memory)"
  by code_simp

lemma schema_keys:
  "map fst SLOT_SCHEMA = [''full_name'', ''dob'', ''has_partner'', ''chief_complaint'', ''months_ttc'']"
  by (simp add: SLOT_SCHEMA_def)

lemma strict_step_none:
  "group1 (rx_exec True (strict_regex name) userResponse) = None \<Longrightarrow>
   strict_step filledSlots userResponse name st = st"
  by (simp add: strict_step_def)

lemma natural_step_none:
  "natural_match name userResponse = None \<Longrightarrow> \<not> single_phrase name userResponse \<Longrightarrow>
   \<not> married_phrase name userResponse \<Longrightarrow>
   natural_step filledSlots userResponse name st = st"
  by (simp add: natural_step_def)

lemma dob_utterance_strict:
  "list_all (\<lambda>name. group1 (rx_exec True (strict_regex name) ''change my dob to 1987'') = None)
     [''full_name'', ''dob'', ''has_partner'', ''chief_complaint'', ''months_ttc'']"
  by code_simp

lemma dob_utterance_natural:
  "natural_match ''dob'' ''change my dob to 1987'' = Some ''1987''
   \<and> list_all (\<lambda>name. natural_match name ''change my dob to 1987'' = None)
       [''full_name'', ''has_partner'', ''chief_complaint'', ''months_ttc'']"
  by code_simp

lemma dob_utterance_phrases:
  "list_all (\<lambda>name. \<not> single_phrase name ''change my dob to 1987''
                    \<and> \<not> married_phrase name ''change my dob to 1987'')
     [''full_name'', ''dob'', ''has_partner'', ''chief_complaint'', ''months_ttc'']"
  by code_simp

lemma dob_not_boolean_name:
  "\<not> rx_test False has_is_prefix ''dob'' \<and> trim ''1987'' = ''1987''"
  by code_simp

text \<open>
  Claim C6, as the code has it. The pattern fallback corrects a slot that the utterance
  names by its id: on \<open>change my dob to 1987\<close>, against any \<open>filledSlots\<close> with
  \<open>dob = 01/01/1989\<close> and with no answer from the correction model, it stores
  \<open>1987\<close> for \<open>dob\<close>, changes no other slot and logs exactly one correction
  interaction.
\<close>

theorem dob_correction_by_slot_id:
  assumes "obj_get filledSlots ''dob'' = Str ''01/01/1989''"
  shows "applyCorrections SLOT_SCHEMA None ''change my dob to 1987'' filledSlots m
           = (obj_set filledSlots ''dob'' (Str ''1987''),
              saveInteraction m (Some ''Correction for dob'') ''change my dob to 1987''
                (Str ''1987'') ''dob'')"
proof -
  let ?u = "''change my dob to 1987''"
  let ?st = "(filledSlots, m)"
  let ?st' = "(obj_set filledSlots ''dob'' (Str ''1987''),
               saveInteraction m (Some ''Correction for dob'') ?u (Str ''1987'') ''dob'')"
  have strict: "strict_step filledSlots ?u name st = st"
    if "name \<in> set [''full_name'', ''dob'', ''has_partner'', ''chief_complaint'', ''months_ttc'']"
    for name st
    using that dob_utterance_strict by (auto intro!: strict_step_none)
  have other: "natural_step filledSlots ?u name st = st"
    if "name \<in> set [''full_name'', ''has_partner'', ''chief_complaint'', ''months_ttc'']"
    for name st
    using that dob_utterance_natural dob_utterance_phrases
    by (auto intro!: natural_step_none)
  have assign: "assignValue filledSlots filledSlots ''dob'' ''1987''
                  = obj_set filledSlots ''dob'' (Str ''1987'')"
    using assms dob_not_boolean_name by (simp add: assignValue_def isBoolean_def)
  have changed: "obj_get filledSlots ''dob'' \<noteq> obj_get (obj_set filledSlots ''dob'' (Str ''1987'')) ''dob''"
    using assms by (simp add: obj_get_obj_set_same)
  have logged: "assign_and_log filledSlots ?u ''dob'' ''1987'' ?st = ?st'"
    using assign changed by (simp add: assign_and_log_def obj_get_obj_set_same)
  have dob: "natural_step filledSlots ?u ''dob'' ?st = ?st'"
    using dob_utterance_natural dob_utterance_phrases logged
    by (simp add: natural_step_def)
  have "pattern_fallback SLOT_SCHEMA ?u filledSlots ?st = ?st'"
    by (simp add: pattern_fallback_def schema_keys strict other dob)
  then show ?thesis
    by (simp add: applyCorrections_def)
qed

theorem dob_correction_by_slot_id_witness:
  "obj_get [(''dob'', Str ''01/01/1989'')] ''dob'' = Str ''01/01/1989''
   \<and> applyCorrections SLOT_SCHEMA None ''change my dob to 1987''
        [(''dob'', Str ''01/01/1989'')] empty_memory
      = ([(''dob'', Str ''1987'')],
         \<lparr>messages = [Ai (Some ''Correction for dob''),
                      Human ''change my dob to 1987'' (Str ''1987'') ''dob''],
          interactionCount = 1\<rparr>)"
proof -
  have h: "obj_get [(''dob'', Str ''01/01/1989'')] ''dob'' = Str ''01/01/1989''"
    by code_simp
  have u: "obj_set [(''dob'', Str ''01/01/1989'')] ''dob'' (Str ''1987'') = [(''dob'', Str ''1987'')]"
    by code_simp
  have s: "saveInteraction empty_memory (Some ''Correction for dob'') ''change my dob to 1987''
             (Str ''1987'') ''dob''
           = \<lparr>messages = [Ai (Some ''Correction for dob''),
                      Human ''change my dob to 1987'' (Str ''1987'') ''dob''],
              interactionCount = 1\<rparr>"
    by code_simp
  show ?thesis
    using dob_correction_by_slot_id [OF h, of empty_memory] h u s by (simp only:)
qed

lemma llm_loop_none:
  "\<not> list_ex (applicable slots obj) cs \<Longrightarrow> llm_loop slots userResponse cs (obj, m) = (obj, m)"
  by (induction cs) (auto simp: llm_step_def applicable_def)

lemma foldl_fixed: "list_all (\<lambda>x. f st x = st) xs \<Longrightarrow> foldl f st xs = st"
  by (induction xs) auto

text \<open>
  Claim C9 fails on the two phrases about a partner. \<open>my wife agrees\<close> matches no
  slot pattern, strict or natural, for any slot of the schema; with no answer from
  the correction model the engine still sets \<open>has_partner\<close> to true, because the
  utterance has the word \<open>wife\<close>, and logs a correction.
\<close>

theorem partner_phrase_counterexample:
  "no_slot_pattern_match SLOT_SCHEMA ''my wife agrees''
   \<and> no_applicable_correction SLOT_SCHEMA [(''has_partner'', JBool False)] None
   \<and> applyCorrections SLOT_SCHEMA None ''my wife agrees'' [(''has_partner'', JBool False)]
        empty_memory
      = ([(''has_partner'', JBool True)],
         \<lparr>messages = [Ai (Some ''Correction for has_partner''),
                      Human ''my wife agrees'' (JBool True) ''has_partner''],
          interactionCount = 1\<rparr>)"
  by code_simp

text \<open>
  Claim C9, as the code has it. When the utterance matches no slot pattern of the
  fallback for any slot of the schema, no phrase about a partner applies (the schema
  has no slot whose id contains \<^verbatim>\<open>has_partner\<close>, or the utterance has neither
  \<open>i am single\<close> nor one of the words \<open>married\<close>, \<open>spouse\<close>, \<open>husband\<close>,
  \<open>wife\<close>), and the correction model failed or gave no applicable correction, the
  correction engine returns the slot map it was given, and logs nothing.
\<close>

theorem correction_without_match:
  assumes "no_slot_pattern_match slots userResponse"
    and "\<not> partner_phrase_applies slots userResponse"
    and "no_applicable_correction slots filledSlots parsed"
  shows "applyCorrections slots parsed userResponse filledSlots m = (filledSlots, m)"
proof -
  let ?st = "(filledSlots, m)"
  have start: "(case parsed of None \<Rightarrow> ?st | Some cs \<Rightarrow> llm_loop slots userResponse cs ?st) = ?st"
    using assms(3) by (auto simp: no_applicable_correction_def llm_loop_none split: option.splits)
  have strict: "list_all (\<lambda>name. strict_step filledSlots userResponse name ?st = ?st) (map fst slots)"
    using assms(1) by (auto simp: no_slot_pattern_match_def list_all_iff strict_step_def)
  have natural: "list_all (\<lambda>name. natural_step filledSlots userResponse name ?st = ?st) (map fst slots)"
    using assms(1,2)
    by (auto simp: no_slot_pattern_match_def partner_phrase_applies_def list_all_iff list_ex_iff
          natural_step_def)
  have s1: "foldl (\<lambda>s name. strict_step filledSlots userResponse name s) ?st (map fst slots) = ?st"
    using strict by (rule foldl_fixed)
  have s2: "foldl (\<lambda>s name. natural_step filledSlots userResponse name s) ?st (map fst slots) = ?st"
    using natural by (rule foldl_fixed)
  have "pattern_fallback slots userResponse filledSlots ?st = ?st"
    by (simp only: pattern_fallback_def s1 s2)
  with start show ?thesis
    by (simp add: applyCorrections_def)
qed

theorem correction_without_match_witness:
  "no_slot_pattern_match SLOT_SCHEMA ''everything looks fine''
   \<and> \<not> partner_phrase_applies SLOT_SCHEMA ''everything looks fine''
   \<and> no_applicable_correction SLOT_SCHEMA [(''dob'', Str ''01/01/1989'')]
        (Some [\<lparr>correctedSlot = ''age'', newValue = Str ''40''\<rparr>,
               \<lparr>correctedSlot = ''dob'', newValue = Str ''01/01/1989''\<rparr>])
   \<and> applyCorrections SLOT_SCHEMA
        (Some [\<lparr>correctedSlot = ''age'', newValue = Str ''40''\<rparr>,
               \<lparr>correctedSlot = ''dob'', newValue = Str ''01/01/1989''\<rparr>])
        ''everything looks fine'' [(''dob'', Str ''01/01/1989'')] empty_memory
       = ([(''dob'', Str ''01/01/1989'')], empty_memory)"
proof -
  have p: "no_slot_pattern_match SLOT_SCHEMA ''everything looks fine''"
    by code_simp
  have q: "\<not> partner_phrase_applies SLOT_SCHEMA ''everything looks fine''"
    by code_simp
  have a: "no_applicable_correction SLOT_SCHEMA [(''dob'', Str ''01/01/1989'')]
        (Some [\<lparr>correctedSlot = ''age'', newValue = Str ''40''\<rparr>,
               \<lparr>correctedSlot = ''dob'', newValue = Str ''01/01/1989''\<rparr>])"
    by code_simp
  show ?thesis
    using correction_without_match [OF p q a, of empty_memory] p q a by (intro conjI)
qed

section \<open>Properties of turn processing\<close>








lemma map_of_obj_set_other: "k' \<noteq> k \<Longrightarrow> map_of (obj_set u k' v) k = map_of u k"
  by (simp add: obj_set_def map_of_obj_put)

lemma map_of_obj_set_same: "k \<noteq> ''__proto__'' \<Longrightarrow> map_of (obj_set u k v) k = Some v"
  by (simp add: obj_set_def map_of_obj_put)

lemma foldl_obj_set_map_of_other:
  "\<not> list_ex (\<lambda>x. slotName x = k) xs \<Longrightarrow>
   map_of (foldl (\<lambda>u e. obj_set u (slotName e) (val e)) u xs) k = map_of u k"
  by (induction xs arbitrary: u) (auto simp: map_of_obj_set_other)










section \<open>Properties of the review message\<close>

lemma merge_stored_entry:
  assumes "exs = pre @ e # post" and "acceptable slots e" and "slotName e \<noteq> ''__proto__''"
    and "\<not> list_ex (\<lambda>x. acceptable slots x \<and> slotName x = slotName e) post"
  shows "(slotName e, val e)
           \<in> set (updatedSlots (fst (processMultipleExtractions slots exs filledSlots m)))"
proof -
  let ?set = "\<lambda>u x. obj_set u (slotName x) (val x)"
  from assms(4)
  have later: "\<not> list_ex (\<lambda>x. slotName x = slotName e) (filter (acceptable slots) post)"
    by (auto simp: list_ex_iff)
  have "updatedSlots (fst (processMultipleExtractions slots exs filledSlots m))
          = foldl ?set (obj_set (foldl ?set filledSlots (filter (acceptable slots) pre))
                          (slotName e) (val e))
              (filter (acceptable slots) post)"
    using assms(1,2) by (simp add: processMultipleExtractions_def merge_loop_updated)
  then have "map_of (updatedSlots (fst (processMultipleExtractions slots exs filledSlots m)))
               (slotName e) = Some (val e)"
    using assms(3) later by (simp add: foldl_obj_set_map_of_other map_of_obj_set_same)
  then show ?thesis
    by (rule map_of_SomeD)
qed

lemma keys_obj_put: "fst ` set (obj_put k v ps) = insert k (fst ` set ps)"
  by (simp add: dom_map_of_conv_image_fst [symmetric] map_of_obj_put)

lemma distinct_obj_put: "distinct (map fst ps) \<Longrightarrow> distinct (map fst (obj_put k v ps))"
  by (induction ps) (auto simp: keys_obj_put)

lemma distinct_foldl_obj_set:
  "distinct (map fst u) \<Longrightarrow>
   distinct (map fst (foldl (\<lambda>u e. obj_set u (slotName e) (val e)) u xs))"
  by (induction xs arbitrary: u) (auto simp: obj_set_def distinct_obj_put)

lemma join_contains: "x \<in> set xs \<Longrightarrow> \<exists>a b. join sep xs = a @ x @ b"
proof (induction sep xs rule: join.induct)
  case (1 sep)
  then show ?case by simp
next
  case (2 sep y)
  then have "join sep [y] = [] @ x @ []" by simp
  then show ?case by blast
next
  case (3 sep y z zs)
  show ?case
  proof (cases "x = y")
    case True
    then have "join sep (y # z # zs) = [] @ x @ (sep @ join sep (z # zs))" by simp
    then show ?thesis by blast
  next
    case False
    with 3 obtain a b where "join sep (z # zs) = a @ x @ b" by auto
    then have "join sep (y # z # zs) = (y @ sep @ a) @ x @ b" by simp
    then show ?thesis by blast
  qed
qed

lemma split_lines_not_Nil: "split_lines cs \<noteq> []"
  by (induction cs) (auto split: list.splits)

lemma split_lines_line: "10 \<notin> set l \<Longrightarrow> split_lines l = [l]"
  by (induction l) auto

lemma split_lines_append: "10 \<notin> set l \<Longrightarrow> split_lines (l @ 10 # r) = l # split_lines r"
  by (induction l) (auto simp: split_lines_not_Nil split: list.splits)

lemma split_lines_join:
  "ls \<noteq> [] \<Longrightarrow> \<forall>l \<in> set ls. 10 \<notin> set l \<Longrightarrow> split_lines (join [10] ls) = ls"
proof (induction "[10::nat]" ls rule: join.induct)
  case 1
  then show ?case by simp
next
  case (2 x)
  then show ?case by (simp add: split_lines_line)
next
  case (3 x y ys)
  then show ?case by (simp add: split_lines_append)
qed

lemma join_Nil_iff: "join sep (x # xs) = [] \<Longrightarrow> x = []"
  by (cases xs) auto

lemma review_line_not_Nil: "review_line slots entry \<noteq> []"
  by (cases entry) (simp add: review_line_def units_def)

lemma summary_lines_message:
  "summary_lines (units review_header @ body @ units review_footer)
     = (if body = [] then [] else split_lines body)"
  by (simp add: summary_lines_def units_def)

lemma summary_lines_review:
  assumes "\<forall>l \<in> set (review_lines slots fs). 10 \<notin> set l"
  shows "summary_lines (generateReviewMessage slots fs) = review_lines slots fs"
proof (cases fs)
  case Nil
  then show ?thesis
    using summary_lines_message [of "[]"]
    by (simp add: generateReviewMessage_def review_lines_def)
next
  case (Cons entry rest)
  then have ne: "review_lines slots fs \<noteq> []"
    by (simp add: review_lines_def)
  have "join [10] (review_lines slots fs) \<noteq> []"
    using Cons join_Nil_iff [of "[10]" "review_line slots entry" "map (review_line slots) rest"]
      review_line_not_Nil [of slots entry]
    by (auto simp: review_lines_def)
  then show ?thesis
    using ne assms
    by (simp add: generateReviewMessage_def summary_lines_message split_lines_join)
qed

text \<open>
  The round trip of claim C8 fails for an object value. The router hands over what
  the model answered without checking the type of a value, the merge accepts an
  object as a valid value and stores it, and its line in the review message reads
  \<open>[object Object]\<close>, whatever the object holds.
\<close>

theorem object_value_counterexample:
  "acceptable SLOT_SCHEMA \<lparr>slotName = ''full_name'', val = Obj, confidence = 9 / 10\<rparr>
   \<and> updatedSlots (fst (processMultipleExtractions SLOT_SCHEMA
        [\<lparr>slotName = ''full_name'', val = Obj, confidence = 9 / 10\<rparr>] [] empty_memory))
      = [(''full_name'', Obj)]
   \<and> summary_lines (generateReviewMessage SLOT_SCHEMA [(''full_name'', Obj)])
      = [units ''- **What is your full name:** [object Object]'']"
  by code_simp

text \<open>
  Claim C8, as the code has it. The value of the last accepted candidate for a slot
  name other than \<^verbatim>\<open>__proto__\<close> is read back in the review message, which contains
  the line of that slot: the label made from the slot's prompt and the text of the
  value. The text is \<open>Yes\<close> or \<open>No\<close> for a boolean, the string itself for a string,
  the printed number for a number, \<open>[object Object]\<close> for an object, and for a list
  the texts of its elements with a comma and a space between them, a string element
  giving itself. When no line contains a line break, the message read line by line
  between its fixed header and footer has exactly the lines of the entries of
  \<open>filledSlots\<close>, one per entry and in their order; the merge keeps the slot ids of
  the entries distinct. For the schema of the repository the labels are the prompts
  without the parenthetical and the question mark; the prompt
  \<open>do you smoke (now) or drink (ever)?\<close> loses both parentheticals and the question
  mark and gets a capital first letter, the slot id \<open>allergies\<close>, with no prompt,
  gives \<open>Allergies\<close>, a first letter U+00E9 becomes U+00C9 and a first letter U+00DF
  becomes \<open>SS\<close>.
\<close>

theorem review_round_trip:
  "(exs = pre @ e # post \<and> acceptable slots e \<and> slotName e \<noteq> ''__proto__''
      \<and> \<not> list_ex (\<lambda>x. acceptable slots x \<and> slotName x = slotName e) post
     \<longrightarrow> (\<exists>a b. generateReviewMessage slots
                   (updatedSlots (fst (processMultipleExtractions slots exs filledSlots m)))
                 = a @ units ''- **'' @ makeLabel (question_of slots (slotName e)) (slotName e)
                   @ units '':** '' @ units (formatValue (val e)) @ b))
   \<and> ((\<forall>(name, v) \<in> set fs.
          10 \<notin> set (units ''- **'' @ makeLabel (question_of slots name) name @ units '':** ''
                       @ units (formatValue v)))
      \<longrightarrow> summary_lines (generateReviewMessage slots fs)
            = map (\<lambda>(name, v). units ''- **'' @ makeLabel (question_of slots name) name
                                @ units '':** '' @ units (formatValue v)) fs)
   \<and> (distinct (map fst filledSlots)
        \<longrightarrow> distinct (map fst (updatedSlots
                                 (fst (processMultipleExtractions slots exs filledSlots m)))))
   \<and> formatValue (JBool True) = ''Yes'' \<and> formatValue (JBool False) = ''No''
   \<and> formatValue (Str s) = s \<and> formatValue (Num t) = t
   \<and> formatValue Obj = ''[object Object]''
   \<and> formatValue (Arr []) = [] \<and> formatValue (Arr [Str x]) = x
   \<and> formatValue (Arr (y # z # zs)) = formatValue (Arr [y]) @ '', '' @ formatValue (Arr (z # zs))
   \<and> generateReviewMessage SLOT_SCHEMA
        [(''full_name'', Str ''Jane Doe''), (''has_partner'', JBool False),
         (''allergies'', Arr [Str ''pollen'', Str ''nuts''])]
      = units (''### Please review your information'' @ [CHR 0x0A, CHR 0x0A]
               @ ''- **What is your full name:** Jane Doe'' @ [CHR 0x0A]
               @ ''- **Do you have a partner who will be part of treatment:** No'' @ [CHR 0x0A]
               @ ''- **Allergies:** pollen, nuts'' @ review_footer)
   \<and> map (\<lambda>name. makeLabel (question_of SLOT_SCHEMA name) name) (map fst SLOT_SCHEMA)
       = map units
           [''What is your full name'', ''What is your date of birth'',
            ''Do you have a partner who will be part of treatment'',
            ''What brings you in today'',
            ''How many months have you been trying to get pregnant'']
   \<and> makeLabel (Some ''do you smoke (now) or drink (ever)?'') ''smoker''
       = units ''Do you smoke  or drink ''
   \<and> makeLabel None ''allergies'' = units ''Allergies''
   \<and> makeLabel None [CHR 0xE9, CHR ''m'', CHR ''a'', CHR ''i'', CHR ''l'']
       = [0xC9, 0x6D, 0x61, 0x69, 0x6C]
   \<and> makeLabel None [CHR 0xDF, CHR ''x''] = [0x53, 0x53, 0x78]"
proof (intro conjI impI)
  assume a: "exs = pre @ e # post \<and> acceptable slots e \<and> slotName e \<noteq> ''__proto__''
      \<and> \<not> list_ex (\<lambda>x. acceptable slots x \<and> slotName x = slotName e) post"
  let ?u = "updatedSlots (fst (processMultipleExtractions slots exs filledSlots m))"
  have "(slotName e, val e) \<in> set ?u"
    using a merge_stored_entry by blast
  then have "review_line slots (slotName e, val e) \<in> set (review_lines slots ?u)"
    by (simp add: review_lines_def)
  then obtain a b where "join [10] (review_lines slots ?u)
                           = a @ review_line slots (slotName e, val e) @ b"
    using join_contains by blast
  then have "generateReviewMessage slots ?u
               = (units review_header @ a)
                 @ units ''- **'' @ makeLabel (question_of slots (slotName e)) (slotName e)
                 @ units '':** '' @ units (formatValue (val e)) @ (b @ units review_footer)"
    by (simp add: generateReviewMessage_def review_line_def)
  then show "\<exists>a b. generateReviewMessage slots ?u
                 = a @ units ''- **'' @ makeLabel (question_of slots (slotName e)) (slotName e)
                   @ units '':** '' @ units (formatValue (val e)) @ b"
    by blast
next
  assume "\<forall>(name, v) \<in> set fs.
          10 \<notin> set (units ''- **'' @ makeLabel (question_of slots name) name @ units '':** ''
                       @ units (formatValue v))"
  then have "\<forall>l \<in> set (review_lines slots fs). 10 \<notin> set l"
    by (auto simp: review_lines_def review_line_def)
  then have "summary_lines (generateReviewMessage slots fs) = review_lines slots fs"
    by (rule summary_lines_review)
  also have "review_lines slots fs
               = map (\<lambda>(name, v). units ''- **'' @ makeLabel (question_of slots name) name
                                   @ units '':** '' @ units (formatValue v)) fs"
    by (auto simp: review_lines_def review_line_def)
  finally show "summary_lines (generateReviewMessage slots fs)
            = map (\<lambda>(name, v). units ''- **'' @ makeLabel (question_of slots name) name
                                @ units '':** '' @ units (formatValue v)) fs" .
next
  assume "distinct (map fst filledSlots)"
  then show "distinct (map fst (updatedSlots
                                 (fst (processMultipleExtractions slots exs filledSlots m))))"
    by (simp add: processMultipleExtractions_def merge_loop_updated distinct_foldl_obj_set)
next
  show "formatValue (JBool True) = ''Yes''" by (simp add: formatValue_def)
  show "formatValue (JBool False) = ''No''" by (simp add: formatValue_def)
  show "formatValue (Str s) = s" by (simp add: formatValue_def)
  show "formatValue (Num t) = t" by (simp add: formatValue_def)
  show "formatValue Obj = ''[object Object]''" by (simp add: formatValue_def)
  show "formatValue (Arr []) = []" by (simp add: formatValue_def)
  show "formatValue (Arr [Str x]) = x" by (simp add: formatValue_def element_text_def)
  show "formatValue (Arr (y # z # zs)) = formatValue (Arr [y]) @ '', '' @ formatValue (Arr (z # zs))"
    by (simp add: formatValue_def)
next
  show "generateReviewMessage SLOT_SCHEMA
        [(''full_name'', Str ''Jane Doe''), (''has_partner'', JBool False),
         (''allergies'', Arr [Str ''pollen'', Str ''nuts''])]
      = units (''### Please review your information'' @ [CHR 0x0A, CHR 0x0A]
               @ ''- **What is your full name:** Jane Doe'' @ [CHR 0x0A]
               @ ''- **Do you have a partner who will be part of treatment:** No'' @ [CHR 0x0A]
               @ ''- **Allergies:** pollen, nuts'' @ review_footer)"
    by code_simp
next
  show "map (\<lambda>name. makeLabel (question_of SLOT_SCHEMA name) name) (map fst SLOT_SCHEMA)
       = map units
           [''What is your full name'', ''What is your date of birth'',
            ''Do you have a partner who will be part of treatment'',
            ''What brings you in today'',
            ''How many months have you been trying to get pregnant'']"
    by code_simp
next
  show "makeLabel (Some ''do you smoke (now) or drink (ever)?'') ''smoker''
       = units ''Do you smoke  or drink ''"
    by code_simp
next
  show "makeLabel None ''allergies'' = units ''Allergies''"
    by code_simp
next
  show "makeLabel None [CHR 0xE9, CHR ''m'', CHR ''a'', CHR ''i'', CHR ''l'']
       = [0xC9, 0x6D, 0x61, 0x69, 0x6C]"
    by code_simp
next
  show "makeLabel None [CHR 0xDF, CHR ''x''] = [0x53, 0x53, 0x78]"
    by code_simp
qed

theorem review_round_trip_witness:
  "acceptable SLOT_SCHEMA \<lparr>slotName = ''has_partner'', val = JBool True, confidence = 9 / 10\<rparr>
   \<and> (\<exists>a b. generateReviewMessage SLOT_SCHEMA
               (updatedSlots (fst (processMultipleExtractions SLOT_SCHEMA
                  [candidate ''full_name'' ''Jane Doe'' (9 / 10),
                   \<lparr>slotName = ''has_partner'', val = JBool True, confidence = 9 / 10\<rparr>]
                  [] empty_memory)))
             = a @ units ''- **Do you have a partner who will be part of treatment:** Yes'' @ b)
   \<and> summary_lines (generateReviewMessage SLOT_SCHEMA
         [(''full_name'', Str ''Jane Doe''), (''has_partner'', JBool False),
          (''allergies'', Arr [Str ''pollen'', Str ''nuts''])])
      = map units
          [''- **What is your full name:** Jane Doe'',
           ''- **Do you have a partner who will be part of treatment:** No'',
           ''- **Allergies:** pollen, nuts'']
   \<and> distinct (map fst (updatedSlots (fst (processMultipleExtractions SLOT_SCHEMA
                   [candidate ''full_name'' ''Jane Doe'' (9 / 10),
                    \<lparr>slotName = ''has_partner'', val = JBool True, confidence = 9 / 10\<rparr>]
                   [] empty_memory))))"
proof -
  let ?e = "\<lparr>slotName = ''has_partner'', val = JBool True, confidence = 9 / 10\<rparr>"
  let ?c = "candidate ''full_name'' ''Jane Doe'' (9 / 10)"
  let ?u = "updatedSlots (fst (processMultipleExtractions SLOT_SCHEMA [?c, ?e] [] empty_memory))"
  let ?fs = "[(''full_name'', Str ''Jane Doe''), (''has_partner'', JBool False),
              (''allergies'', Arr [Str ''pollen'', Str ''nuts''])]"
  let ?line = "\<lambda>(name, v). units ''- **'' @ makeLabel (question_of SLOT_SCHEMA name) name
                            @ units '':** '' @ units (formatValue v)"
  have acc: "acceptable SLOT_SCHEMA ?e"
    by code_simp
  have line: "units ''- **'' @ makeLabel (question_of SLOT_SCHEMA (slotName ?e)) (slotName ?e)
                @ units '':** '' @ units (formatValue (val ?e))
              = units ''- **Do you have a partner who will be part of treatment:** Yes''"
    by code_simp
  have line_in: "units ''- **'' @ makeLabel (question_of SLOT_SCHEMA (slotName ?e)) (slotName ?e)
                   @ units '':** '' @ units (formatValue (val ?e)) @ b
                 = units ''- **Do you have a partner who will be part of treatment:** Yes'' @ b"
    for b
    using arg_cong [OF line, of "\<lambda>x. x @ b"] by (simp only: append_assoc)
  have hyp: "[?c, ?e] = [?c] @ ?e # []
      \<and> acceptable SLOT_SCHEMA ?e \<and> slotName ?e \<noteq> ''__proto__''
      \<and> \<not> list_ex (\<lambda>x. acceptable SLOT_SCHEMA x \<and> slotName x = slotName ?e) []"
    using acc by simp
  have clean: "\<forall>(name, v) \<in> set ?fs.
          10 \<notin> set (units ''- **'' @ makeLabel (question_of SLOT_SCHEMA name) name
                       @ units '':** '' @ units (formatValue v))"
    by code_simp
  have lines: "map ?line ?fs
               = map units
                   [''- **What is your full name:** Jane Doe'',
                    ''- **Do you have a partner who will be part of treatment:** No'',
                    ''- **Allergies:** pollen, nuts'']"
    by code_simp
  have d: "distinct (map fst ([] :: jsobject))"
    by simp
  note rt = review_round_trip
              [where exs = "[?c, ?e]" and pre = "[?c]" and e = ?e and post = "[]"
                 and slots = SLOT_SCHEMA and filledSlots = "[]" and m = empty_memory
                 and fs = ?fs]
  have "\<exists>a b. generateReviewMessage SLOT_SCHEMA ?u
                = a @ units ''- **'' @ makeLabel (question_of SLOT_SCHEMA (slotName ?e)) (slotName ?e)
                  @ units '':** '' @ units (formatValue (val ?e)) @ b"
    using rt [THEN conjunct1] hyp by (rule mp)
  then have shown: "\<exists>a b. generateReviewMessage SLOT_SCHEMA ?u
                = a @ units ''- **Do you have a partner who will be part of treatment:** Yes'' @ b"
    by (simp only: line_in)
  have "summary_lines (generateReviewMessage SLOT_SCHEMA ?fs) = map ?line ?fs"
    using rt [THEN conjunct2, THEN conjunct1] clean by (rule mp)
  then have read: "summary_lines (generateReviewMessage SLOT_SCHEMA ?fs)
               = map units
                   [''- **What is your full name:** Jane Doe'',
                    ''- **Do you have a partner who will be part of treatment:** No'',
                    ''- **Allergies:** pollen, nuts'']"
    by (simp only: lines)
  have "distinct (map fst ?u)"
    using rt [THEN conjunct2, THEN conjunct2, THEN conjunct1] d by (rule mp)
  with acc shown read show ?thesis
    by (intro conjI)
qed

end
